theory Spec2Isabelle
  imports Main "HOL-Library.AList"
begin

section \<open>JavaScript values shared by the components\<close>

text \<open>
  Strings are byte strings: a JavaScript string is represented by its UTF-8 bytes, so every
  ASCII character is one \<^typ>\<open>char\<close>. A value of type \<open>string | null | undefined\<close> is a
  \<^typ>\<open>string option\<close>. JavaScript's truthiness test on such a value (\<open>!x\<close>, \<open>x || y\<close>,
  \<open>if (x)\<close>) is false for \<open>null\<close>, \<open>undefined\<close> and the empty string.
\<close>

definition truthy :: "string option \<Rightarrow> bool" where
  "truthy s = (case s of None \<Rightarrow> False | Some v \<Rightarrow> v \<noteq> [])"

definition js_or :: "string option \<Rightarrow> string option \<Rightarrow> string option" where
  "js_or a b = (if truthy a then a else b)"

definition to_lower_char :: "char \<Rightarrow> char" where
  "to_lower_char c =
     (case map_of (zip ''ABCDEFGHIJKLMNOPQRSTUVWXYZ'' ''abcdefghijklmnopqrstuvwxyz'') c of
        Some d \<Rightarrow> d
      | None \<Rightarrow> c)"

definition toLowerCase :: "string \<Rightarrow> string" where
  "toLowerCase s = map to_lower_char s"

text \<open>\<open>s.startsWith(p)\<close> and \<open>s.includes(p)\<close>.\<close>

fun startsWith :: "string \<Rightarrow> string \<Rightarrow> bool" where
  "startsWith s [] = True"
| "startsWith [] (p # ps) = False"
| "startsWith (c # cs) (p # ps) = (c = p \<and> startsWith cs ps)"

fun includes_str :: "string \<Rightarrow> string \<Rightarrow> bool" where
  "includes_str [] p = (p = [])"
| "includes_str (c # cs) p = (startsWith (c # cs) p \<or> includes_str cs p)"

text \<open>\<open>xs.join(sep)\<close> on an array of strings.\<close>

fun join :: "string \<Rightarrow> string list \<Rightarrow> string" where
  "join sep [] = []"
| "join sep [x] = x"
| "join sep (x # y # ys) = x @ sep @ join sep (y # ys)"

text \<open>Exceptions are values; only the class and the message matter to the code.\<close>

datatype js_error = Error string | TypeError string

definition error_message :: "js_error \<Rightarrow> string" where
  "error_message e = (case e of Error m \<Rightarrow> m | TypeError m \<Rightarrow> m)"

text \<open>The JSON bodies the handlers send are flat objects of scalars, in field order.\<close>

datatype json_value = JString string | JNumber nat | JBoolean bool

type_synonym json_object = "(string \<times> json_value) list"

section \<open>Streaming/Download Gateway (routes \<open>/api/stream/:fileId\<close>, \<open>/api/download/:fileId\<close>)\<close>

text \<open>
  Header collections are association lists. The response object of the HTTP framework keys
  its headers by lower-cased name, and a later \<open>setHeader\<close> of the same name replaces the
  earlier value.
\<close>

type_synonym headers = "(string \<times> string) list"

definition setHeader :: "string \<Rightarrow> string \<Rightarrow> headers \<Rightarrow> headers" where
  "setHeader k v hs = AList.update (toLowerCase k) v hs"

text \<open>The cookie of a captured session, and the stored file record (fields the gateway reads).\<close>

record cookie =
  c_name :: string
  c_value :: string
  c_domain :: string
  c_path :: string
  c_expires :: int
  c_httpOnly :: bool
  c_secure :: bool
  c_sameSite :: string

record media_file =
  f_id :: string
  f_name :: string
  f_downloadUrl :: "string option"
  f_dlink :: "string option"

text \<open>
  \<open>buildCookieHeader(token)\<close>: the token's cookie column holds the JSON text of the cookie
  array; it is represented here by the array it encodes (the store writes it with
  \<open>JSON.stringify\<close>), so the \<open>JSON.parse\<close> of the source always succeeds.
\<close>

definition buildCookieHeader :: "cookie list option \<Rightarrow> string" where
  "buildCookieHeader token =
     (case token of
        None \<Rightarrow> []
      | Some cookies \<Rightarrow>
          join ''; ''
            (map (\<lambda>c. c_name c @ ''='' @ c_value c)
              (filter (\<lambda>c. includes_str (c_domain c) ''1024tera'' \<or> includes_str (c_domain c) ''terabox''
                        \<or> includes_str (c_domain c) ''panapi'' \<or> includes_str (c_domain c) ''pcs'')
                cookies)))"

text \<open>
  The outbound request and the upstream response of \<open>fetch\<close>. Iterating the response's
  headers yields every name in lower case and each name once, except that \<open>set-cookie\<close> may
  come once per cookie (\<open>headers_iterated\<close>); \<open>up_body\<close> is \<open>None\<close> when the response
  has no body, else the chunks of the body stream.
\<close>

record outbound_request =
  o_url :: string
  o_headers :: headers

record upstream_response =
  up_status :: nat
  up_headers :: headers
  up_body :: "string list option"

type_synonym fetch = "outbound_request \<Rightarrow> js_error + upstream_response"

definition response_ok :: "upstream_response \<Rightarrow> bool" where
  "response_ok r = (200 \<le> up_status r \<and> up_status r \<le> 299)"

definition headers_iterated :: "headers \<Rightarrow> bool" where
  "headers_iterated hs =
     (list_all (\<lambda>kv. toLowerCase (fst kv) = fst kv) hs
      \<and> distinct (map fst (filter (\<lambda>kv. fst kv \<noteq> ''set-cookie'') hs)))"

text \<open>\<open>response.headers.get(name)\<close>: the lookup is by lower-cased name.\<close>

definition headers_get :: "headers \<Rightarrow> string \<Rightarrow> string option" where
  "headers_get hs k = map_of hs (toLowerCase k)"

text \<open>What a handler sends: a JSON reply, or headers followed by the piped body.\<close>

datatype local_body = Piped "string list" | Ended

datatype local_response =
  JsonReply nat json_object
| StreamReply nat headers local_body

definition reply_status :: "local_response \<Rightarrow> nat" where
  "reply_status r = (case r of JsonReply s _ \<Rightarrow> s | StreamReply s _ _ \<Rightarrow> s)"

definition reply_header :: "local_response \<Rightarrow> string \<Rightarrow> string option" where
  "reply_header r k = (case r of JsonReply _ _ \<Rightarrow> None | StreamReply _ hs _ \<Rightarrow> map_of hs (toLowerCase k))"

definition browser_user_agent :: string where
  "browser_user_agent = ''Mozilla/5.0 (Windows NT 10.0; Win64; x64) AppleWebKit/537.36 (KHTML, like Gecko) Chrome/130.0.0.0 Safari/537.36''"

definition stream_outbound_headers :: "cookie list option \<Rightarrow> string option \<Rightarrow> headers" where
  "stream_outbound_headers token rangeHdr =
     [(''User-Agent'', browser_user_agent),
      (''Referer'', ''https://www.1024tera.com/''),
      (''Origin'', ''https://www.1024tera.com''),
      (''Accept'', ''*/*'')]
     @ (if buildCookieHeader token \<noteq> [] then [(''Cookie'', buildCookieHeader token)] else [])
     @ (case rangeHdr of Some r \<Rightarrow> (if r \<noteq> [] then [(''Range'', r)] else []) | None \<Rightarrow> [])"

definition skipHeaders :: "string list" where
  "skipHeaders = [''transfer-encoding'', ''connection'', ''keep-alive'', ''content-encoding'',
                  ''content-disposition'']"

definition forward_header :: "bool \<Rightarrow> string \<times> string \<Rightarrow> headers \<Rightarrow> headers" where
  "forward_header isInitialRange kv hs =
     (let k = toLowerCase (fst kv) in
      if k \<in> set skipHeaders then hs
      else if isInitialRange \<and> k = ''content-range'' then hs
      else setHeader (fst kv) (snd kv) hs)"

definition stream_fixed_headers :: "headers \<Rightarrow> headers" where
  "stream_fixed_headers hs =
     setHeader ''Access-Control-Expose-Headers'' ''Content-Range, Content-Length, Accept-Ranges''
      (setHeader ''Access-Control-Allow-Headers'' ''Range''
        (setHeader ''Access-Control-Allow-Origin'' ''*''
          (setHeader ''Connection'' ''close''
            (setHeader ''Accept-Ranges'' ''bytes''
              (setHeader ''Content-Disposition'' ''inline'' hs)))))"

definition pipe_body :: "string list option \<Rightarrow> local_body" where
  "pipe_body b = (case b of Some chunks \<Rightarrow> Piped chunks | None \<Rightarrow> Ended)"

text \<open>
  The handler of \<open>GET /api/stream/:fileId\<close>. Its inputs are what the source reads: the stored
  file (\<open>storage.getFile\<close>), the cookies of the active token (\<open>storage.getActiveAuthToken\<close>),
  the inbound \<open>Range\<close> header (\<open>req.headers.range\<close>) and the outcome of \<open>fetch\<close>. An
  exception of \<open>fetch\<close> reaches the handler's \<open>catch\<close>, before any header is sent.
\<close>

definition stream_handler ::
  "fetch \<Rightarrow> media_file option \<Rightarrow> cookie list option \<Rightarrow> string option \<Rightarrow> local_response" where
  "stream_handler fetch file token rangeHdr =
     (case file of
        None \<Rightarrow> JsonReply 404 [(''error'', JString ''File not found'')]
      | Some f \<Rightarrow>
         (case js_or (f_downloadUrl f) (f_dlink f) of
            None \<Rightarrow> JsonReply 400 [(''error'', JString ''No stream URL available. Run Auth Fetch first.'')]
          | Some streamUrl \<Rightarrow>
             if streamUrl = [] then
               JsonReply 400 [(''error'', JString ''No stream URL available. Run Auth Fetch first.'')]
             else
               (case fetch \<lparr>o_url = streamUrl, o_headers = stream_outbound_headers token rangeHdr\<rparr> of
                  Inl e \<Rightarrow> JsonReply 500 [(''error'', JString ''Failed to stream file'')]
                | Inr response \<Rightarrow>
                   if \<not> response_ok response \<and> up_status response \<noteq> 206 then
                     (let expired = (up_status response = 401 \<or> up_status response = 403) in
                      JsonReply (up_status response)
                        [(''error'', JString ''Stream failed''),
                         (''status'', JNumber (up_status response)),
                         (''expired'', JBoolean expired),
                         (''message'', JString
                            (if expired
                             then ''The download link has expired. Run Auth Fetch again to get fresh links.''
                             else ''Could not stream file.''))])
                   else
                     (let isInitialRange = (rangeHdr = Some ''bytes=0-'' \<or> \<not> truthy rangeHdr);
                          statusCode = (if isInitialRange then 200 else 206)
                      in StreamReply statusCode
                           (stream_fixed_headers
                              (fold (forward_header isInitialRange) (up_headers response) []))
                           (pipe_body (up_body response))))))"

text \<open>
  \<open>encodeURIComponent\<close>: every byte of the UTF-8 form is kept if it is an unreserved
  character (letters, digits and \<open>- _ . ! ~ * ' ( )\<close>) and else written as \<open>%XX\<close> with
  upper-case hexadecimal digits.
\<close>

definition uri_unreserved :: "char \<Rightarrow> bool" where
  "uri_unreserved c =
     (c \<in> set (''ABCDEFGHIJKLMNOPQRSTUVWXYZabcdefghijklmnopqrstuvwxyz0123456789-_.!~*()'' @ [CHR 0x27]))"

definition hex_digit :: "nat \<Rightarrow> char" where
  "hex_digit n = (case map_of (zip [0, 1, 2, 3, 4, 5, 6, 7, 8, 9, 10, 11, 12, 13, 14, 15] ''0123456789ABCDEF'') n of Some d \<Rightarrow> d | None \<Rightarrow> CHR ''0'')"

definition percent_encode :: "char \<Rightarrow> string" where
  "percent_encode c = [CHR ''%'', hex_digit (of_char c div 16), hex_digit (of_char c mod 16)]"

definition encodeURIComponent :: "string \<Rightarrow> string" where
  "encodeURIComponent s = concat (map (\<lambda>c. if uri_unreserved c then [c] else percent_encode c) s)"

definition download_outbound_headers :: "cookie list option \<Rightarrow> headers" where
  "download_outbound_headers token =
     [(''User-Agent'', browser_user_agent),
      (''Referer'', ''https://www.1024tera.com/''),
      (''Origin'', ''https://www.1024tera.com'')]
     @ (if buildCookieHeader token \<noteq> [] then [(''Cookie'', buildCookieHeader token)] else [])"

definition content_disposition :: "string \<Rightarrow> string" where
  "content_disposition filename =
     (let encodedFilename = encodeURIComponent filename in
      ''attachment; filename='' @ [CHR 0x22] @ encodedFilename @ [CHR 0x22]
        @ ''; filename*=UTF-8'' @ [CHR 0x27, CHR 0x27] @ encodedFilename)"

text \<open>The handler of \<open>GET /api/download/:fileId\<close>.\<close>

definition download_handler ::
  "fetch \<Rightarrow> media_file option \<Rightarrow> cookie list option \<Rightarrow> local_response" where
  "download_handler fetch file token =
     (case file of
        None \<Rightarrow> JsonReply 404 [(''error'', JString ''File not found'')]
      | Some f \<Rightarrow>
         (case js_or (f_downloadUrl f) (f_dlink f) of
            None \<Rightarrow> JsonReply 400 [(''error'', JString ''No download URL available. Run Auth Fetch first.'')]
          | Some downloadUrl \<Rightarrow>
             if downloadUrl = [] then
               JsonReply 400 [(''error'', JString ''No download URL available. Run Auth Fetch first.'')]
             else
               (case fetch \<lparr>o_url = downloadUrl, o_headers = download_outbound_headers token\<rparr> of
                  Inl e \<Rightarrow> JsonReply 500 [(''error'', JString ''Failed to download file'')]
                | Inr response \<Rightarrow>
                   if \<not> response_ok response then
                     (let expired = (up_status response = 401 \<or> up_status response = 403) in
                      JsonReply (up_status response)
                        [(''error'', JString ''Download failed''),
                         (''expired'', JBoolean expired),
                         (''message'', JString
                            (if expired
                             then ''The download link has expired. Run Auth Fetch again.''
                             else ''Could not download file.''))])
                   else
                     (let h1 = setHeader ''Content-Disposition'' (content_disposition (f_name f)) [];
                          contentType = headers_get (up_headers response) ''Content-Type'';
                          h2 = setHeader ''Content-Type''
                                 (case js_or contentType (Some ''application/octet-stream'') of
                                    Some t \<Rightarrow> t | None \<Rightarrow> ''application/octet-stream'') h1;
                          contentLength = headers_get (up_headers response) ''Content-Length'';
                          h3 = (case contentLength of
                                  Some l \<Rightarrow> (if l \<noteq> [] then setHeader ''Content-Length'' l h2 else h2)
                                | None \<Rightarrow> h2)
                      in StreamReply 200 h3 (pipe_body (up_body response))))))"


text \<open>A \<open>fetch\<close> that answers every request with the given response (for concrete runs).\<close>

definition fetch_returns :: "upstream_response \<Rightarrow> fetch" where
  "fetch_returns r req = Inr r"

definition sample_file :: media_file where
  "sample_file = \<lparr>f_id = ''f1'', f_name = ''a b.mp4'',
                   f_downloadUrl = Some ''https://d.1024tera.com/file/1'', f_dlink = None\<rparr>"

definition sample_partial :: upstream_response where
  "sample_partial = \<lparr>up_status = 206,
                      up_headers = [(''content-range'', ''bytes 1000-2000/5000''),
                                    (''content-type'', ''video/mp4'')],
                      up_body = Some [''x'']\<rparr>"

definition sample_status :: "nat \<Rightarrow> upstream_response" where
  "sample_status n = \<lparr>up_status = n, up_headers = [], up_body = None\<rparr>"

section \<open>Share Reference Resolver (\<open>extractSurl\<close>)\<close>

text \<open>
  The platform's \<open>URL\<close> class is not part of the repository: the parser is a parameter
  \<open>newURL\<close> of the resolver, which returns the parsed URL or the \<open>TypeError\<close> that
  \<open>new URL(url)\<close> throws. Of a parsed URL the resolver reads \<open>pathname\<close> and
  \<open>searchParams\<close> (the decoded name-value pairs of the query, in order);
  \<open>searchParams.get(k)\<close> is the value of the first pair named \<open>k\<close>.
\<close>

record url =
  protocol :: string
  host :: string
  pathname :: string
  searchParams :: "(string \<times> string) list"

type_synonym url_parser = "string \<Rightarrow> js_error + url"

definition searchParams_get :: "url \<Rightarrow> string \<Rightarrow> string option" where
  "searchParams_get u k = map_of (searchParams u) k"

text \<open>The character class \<open>[A-Za-z0-9_-]\<close>.\<close>

definition token_char :: "char \<Rightarrow> bool" where
  "token_char c =
     (c \<in> set ''ABCDEFGHIJKLMNOPQRSTUVWXYZabcdefghijklmnopqrstuvwxyz0123456789_-'')"

text \<open>
  \<open>pathname.match(/\/s\/([A-Za-z0-9_-]+)/)\<close>, giving the capture group \<open>m[1]\<close> of the
  leftmost match (the group is greedy), or \<open>None\<close> when the pattern matches nowhere.
\<close>

fun match_share_path :: "string \<Rightarrow> string option" where
  "match_share_path [] = None"
| "match_share_path (c # cs) =
     (if startsWith (c # cs) ''/s/'' \<and> takeWhile token_char (drop 2 cs) \<noteq> []
      then Some (takeWhile token_char (drop 2 cs))
      else match_share_path cs)"

definition extractSurl_body :: "url_parser \<Rightarrow> string \<Rightarrow> js_error + string option" where
  "extractSurl_body newURL url =
     (case newURL url of
        Inl e \<Rightarrow> Inl e
      | Inr u \<Rightarrow>
         (let surl = searchParams_get u ''surl'';
              surl = (if \<not> truthy surl
                      then (case match_share_path (pathname u) of Some m1 \<Rightarrow> Some m1 | None \<Rightarrow> surl)
                      else surl)
          in case surl of
               None \<Rightarrow> Inr None
             | Some v \<Rightarrow>
                 if v = [] then Inr None
                 else Inr (Some (if startsWith v ''1'' then drop 1 v else v))))"

text \<open>The \<open>try ... catch\<close> around the body turns every exception into \<open>null\<close>.\<close>

definition extractSurl :: "url_parser \<Rightarrow> string \<Rightarrow> string option" where
  "extractSurl newURL url = (case extractSurl_body newURL url of Inl e \<Rightarrow> None | Inr r \<Rightarrow> r)"

text \<open>
  A parser for concrete runs. It reads the plain absolute form
  \<open>scheme://host/path?query#fragment\<close> the way the platform's parser does when the input
  has no character that the platform would normalise, encode or decode (no \<open>%\<close>, \<open>+\<close>,
  backslash, dot segment, credentials, port or white space), and rejects every input without
  \<open>://\<close> after a scheme, as the platform rejects a string that is not an absolute URL.
\<close>

fun split_at :: "string \<Rightarrow> string \<Rightarrow> (string \<times> string) option" where
  "split_at sep [] = (if sep = [] then Some ([], []) else None)"
| "split_at sep (c # cs) =
     (if startsWith (c # cs) sep then Some ([], drop (length sep) (c # cs))
      else (case split_at sep cs of None \<Rightarrow> None | Some (l, r) \<Rightarrow> Some (c # l, r)))"

fun split_all :: "char \<Rightarrow> string \<Rightarrow> string list" where
  "split_all d [] = [[]]"
| "split_all d (c # cs) =
     (if c = d then [] # split_all d cs
      else (case split_all d cs of [] \<Rightarrow> [[c]] | x # xs \<Rightarrow> (c # x) # xs))"

definition parse_pair :: "string \<Rightarrow> string \<times> string" where
  "parse_pair kv = (case split_at ''='' kv of None \<Rightarrow> (kv, []) | Some (k, v) \<Rightarrow> (k, v))"

definition parse_query :: "string \<Rightarrow> (string \<times> string) list" where
  "parse_query q = map parse_pair (filter (\<lambda>kv. kv \<noteq> []) (split_all CHR ''&'' q))"

definition scheme_char :: "char \<Rightarrow> bool" where
  "scheme_char c =
     (c \<in> set ''ABCDEFGHIJKLMNOPQRSTUVWXYZabcdefghijklmnopqrstuvwxyz0123456789+-.'')"

definition alpha_char :: "char \<Rightarrow> bool" where
  "alpha_char c = (c \<in> set ''ABCDEFGHIJKLMNOPQRSTUVWXYZabcdefghijklmnopqrstuvwxyz'')"

definition parse_plain_url :: url_parser where
  "parse_plain_url s =
     (case split_at ''://'' s of
        None \<Rightarrow> Inl (TypeError ''Invalid URL'')
      | Some (scheme, rest) \<Rightarrow>
          (let noFragment = takeWhile (\<lambda>c. c \<noteq> CHR ''#'') rest;
               beforeQuery = takeWhile (\<lambda>c. c \<noteq> CHR ''?'') noFragment;
               query = drop (Suc (length beforeQuery)) noFragment;
               authority = takeWhile (\<lambda>c. c \<noteq> CHR ''/'') beforeQuery;
               path = drop (length authority) beforeQuery
           in if scheme = [] \<or> \<not> alpha_char (hd scheme) \<or> \<not> list_all scheme_char scheme
                 \<or> authority = []
              then Inl (TypeError ''Invalid URL'')
              else Inr \<lparr>protocol = toLowerCase scheme @ '':'',
                        host = toLowerCase authority,
                        pathname = (if path = [] then ''/'' else path),
                        searchParams = parse_query query\<rparr>))"

text \<open>
  The derivation rule in the words of the specification, for comparison with the code.
  \<open>share_path_token p t\<close>: \<open>t\<close> is the token of the first place of the path \<open>p\<close> where
  \<open>/s/\<close> is followed by a token character, taken as far as token characters go.
  \<open>strip_discriminator\<close> removes one leading \<open>1\<close>.
\<close>

definition share_path_token :: "string \<Rightarrow> string \<Rightarrow> bool" where
  "share_path_token p t =
     (\<exists>pre rest. p = pre @ ''/s/'' @ t @ rest \<and> t \<noteq> [] \<and> list_all token_char t
        \<and> (rest = [] \<or> \<not> token_char (hd rest))
        \<and> (\<forall>pre' rest'. p = pre' @ ''/s/'' @ rest' \<and> length pre' < length pre
               \<longrightarrow> rest' = [] \<or> \<not> token_char (hd rest')))"

definition strip_discriminator :: "string \<Rightarrow> string" where
  "strip_discriminator v = (case v of [] \<Rightarrow> [] | c # w \<Rightarrow> (if c = CHR ''1'' then w else v))"

text \<open>
  \<open>stated_reference\<close> reads "use the query parameter if present" as written: a parameter
  that is present with an empty value is used. \<open>derived_reference\<close> uses the parameter only
  when its value is not empty.
\<close>

definition stated_reference :: "url \<Rightarrow> string \<Rightarrow> bool" where
  "stated_reference u r =
     (\<exists>v. r = strip_discriminator v \<and>
        (case searchParams_get u ''surl'' of
           Some q \<Rightarrow> v = q
         | None \<Rightarrow> share_path_token (pathname u) v))"

definition derived_reference :: "url \<Rightarrow> string \<Rightarrow> bool" where
  "derived_reference u r =
     (\<exists>v. r = strip_discriminator v \<and>
        (case searchParams_get u ''surl'' of
           Some q \<Rightarrow> (if q \<noteq> [] then v = q else share_path_token (pathname u) v)
         | None \<Rightarrow> share_path_token (pathname u) v))"

section \<open>Token Store (\<open>saveAuthToken\<close>, \<open>invalidateAuthTokens\<close>, \<open>getActiveAuthToken\<close>)\<close>

text \<open>
  The table \<open>auth_tokens\<close> is the list of its rows in insertion order; \<open>id\<close> is its primary
  key, so an insert of an id that is already there fails. The cookie column is represented by
  the cookie array whose JSON text it holds. Times are milliseconds.
\<close>

datatype token_status = active | expired | invalid

record auth_data =
  a_provider :: string
  a_jsToken :: string
  a_cookies :: "cookie list"
  a_capturedAt :: int

record auth_token =
  t_id :: string
  t_provider :: string
  t_jsToken :: string
  t_cookies :: "cookie list"
  t_status :: token_status
  t_capturedAt :: int
  t_expiresAt :: "int option"
  t_lastUsedAt :: "int option"

type_synonym token_table = "auth_token list"

datatype db_error = UniqueConstraint string

definition getActiveAuthToken :: "token_table \<Rightarrow> auth_token option" where
  "getActiveAuthToken db =
     (case filter (\<lambda>r. t_status r = active) db of [] \<Rightarrow> None | r # rs \<Rightarrow> Some r)"

definition invalidateAuthTokens :: "token_table \<Rightarrow> token_table" where
  "invalidateAuthTokens db =
     map (\<lambda>r. if t_status r = active then r\<lparr>t_status := expired\<rparr> else r) db"

definition db_insert :: "auth_token \<Rightarrow> token_table \<Rightarrow> db_error + token_table" where
  "db_insert row db =
     (if t_id row \<in> set (map t_id db) then Inl (UniqueConstraint (t_id row)) else Inr (db @ [row]))"

text \<open>
  The row that \<open>saveAuthToken\<close> inserts; \<open>uuid\<close> and \<open>now\<close> are the results of
  \<open>randomUUID()\<close> and \<open>new Date()\<close>.
\<close>

definition new_token_row :: "auth_data \<Rightarrow> string \<Rightarrow> int \<Rightarrow> auth_token" where
  "new_token_row authData uuid now =
     \<lparr>t_id = uuid, t_provider = a_provider authData, t_jsToken = a_jsToken authData,
      t_cookies = a_cookies authData, t_status = active,
      t_capturedAt = a_capturedAt authData, t_expiresAt = None,
      t_lastUsedAt = Some now\<rparr>"

text \<open>
  \<open>saveAuthToken(authData)\<close> is two awaited statements, with no transaction around them:
  \<open>await this.invalidateAuthTokens()\<close> and then \<open>await db.insert(...)\<close>. Each statement is
  one step on the table. Between the two, other code can run, the statements of another
  call of \<open>saveAuthToken\<close> among it (the route \<open>GET /api/auth/status\<close> calls it on every
  poll while the session is \<open>success\<close>). An insert that fails leaves the table as it is.
\<close>

datatype store_step = DemoteActive | InsertToken auth_data string int

fun apply_store_step :: "store_step \<Rightarrow> token_table \<Rightarrow> token_table" where
  "apply_store_step DemoteActive db = invalidateAuthTokens db"
| "apply_store_step (InsertToken authData uuid now) db =
     (case db_insert (new_token_row authData uuid now) db of
        Inl e \<Rightarrow> db
      | Inr db' \<Rightarrow> db')"

definition run_store_steps :: "store_step list \<Rightarrow> token_table \<Rightarrow> token_table" where
  "run_store_steps steps db = fold apply_store_step steps db"

text \<open>The statements of one call of \<open>saveAuthToken\<close>, in their order.\<close>

definition save_steps :: "auth_data \<Rightarrow> string \<Rightarrow> int \<Rightarrow> store_step list" where
  "save_steps authData uuid now = [DemoteActive, InsertToken authData uuid now]"

text \<open>
  A call of \<open>saveAuthToken\<close> between whose two statements nothing else runs: the table it
  leaves behind and either the new token or the error of the insert; the demotion is not
  undone when the insert fails.
\<close>

definition saveAuthToken ::
  "auth_data \<Rightarrow> string \<Rightarrow> int \<Rightarrow> token_table \<Rightarrow> (db_error + auth_token) \<times> token_table" where
  "saveAuthToken authData uuid now db =
     (let db1 = invalidateAuthTokens db;
          row = new_token_row authData uuid now
      in case db_insert row db1 of
           Inl e \<Rightarrow> (Inl e, db1)
         | Inr db2 \<Rightarrow> (Inr row, db2))"

text \<open>\<open>interleaving zs xs ys\<close>: \<open>zs\<close> runs the steps of \<open>xs\<close> and of \<open>ys\<close>, each in its order.\<close>

fun interleaving :: "'a list \<Rightarrow> 'a list \<Rightarrow> 'a list \<Rightarrow> bool" where
  "interleaving [] xs ys = (xs = [] \<and> ys = [])"
| "interleaving (z # zs) xs ys =
     ((case xs of [] \<Rightarrow> False | x # xs' \<Rightarrow> z = x \<and> interleaving zs xs' ys)
      \<or> (case ys of [] \<Rightarrow> False | y # ys' \<Rightarrow> z = y \<and> interleaving zs xs ys'))"

definition active_tokens :: "token_table \<Rightarrow> auth_token list" where
  "active_tokens db = filter (\<lambda>r. t_status r = active) db"

definition status_of :: "token_table \<Rightarrow> string \<Rightarrow> token_status option" where
  "status_of db i = map_option t_status (find (\<lambda>r. t_id r = i) db)"

definition sample_auth :: "string \<Rightarrow> auth_data" where
  "sample_auth tok = \<lparr>a_provider = ''terabox'', a_jsToken = tok, a_cookies = [], a_capturedAt = 0\<rparr>"

text \<open>
  Two calls of \<open>saveAuthToken\<close> that overlap: both demotions run before either insert.
\<close>

definition overlapping_saves :: "store_step list" where
  "overlapping_saves =
     [DemoteActive, DemoteActive,
      InsertToken (sample_auth ''tokenA'') ''id-a'' 1,
      InsertToken (sample_auth ''tokenB'') ''id-b'' 2]"


section \<open>Numbers as text\<close>

text \<open>
  The decimal text of a natural number, as a template literal renders an integer below
  \<open>10^21\<close> (\<open>Date.now()\<close> and the byte counts below \<open>2^53\<close> are such numbers).
\<close>

definition digit_char :: "nat \<Rightarrow> char" where
  "digit_char n =
     (case map_of (zip [0, 1, 2, 3, 4, 5, 6, 7, 8, 9] ''0123456789'') n of
        Some d \<Rightarrow> d
      | None \<Rightarrow> CHR ''0'')"

function decimal_digits :: "nat \<Rightarrow> string \<Rightarrow> string" where
  "decimal_digits n acc =
     (if n < 10 then digit_char n # acc
      else decimal_digits (n div 10) (digit_char (n mod 10) # acc))"
  by pat_completeness auto
termination
  by (relation "measure fst") auto

declare decimal_digits.simps [simp del]

definition nat_text :: "nat \<Rightarrow> string" where
  "nat_text n = decimal_digits n []"

section \<open>Metadata Fetch Service: the authenticated strategy\<close>

text \<open>\<open>cookiesToHeader\<close> of the fetch service (two domains, unlike the gateway's four).\<close>

definition cookiesToHeader :: "cookie list \<Rightarrow> string" where
  "cookiesToHeader cookies =
     join ''; ''
       (map (\<lambda>c. c_name c @ ''='' @ c_value c)
         (filter (\<lambda>c. includes_str (c_domain c) ''1024tera'' \<or> includes_str (c_domain c) ''terabox'')
           cookies))"

text \<open>
  \<open>humanSize(bytes)\<close> for a byte count that is a natural number below \<open>2^53\<close>: dividing
  such a number by 1024 is exact in floating point, so after \<open>i\<close> rounds of the loop the
  value is \<open>bytes / 1024^i\<close>, and \<open>toFixed(2)\<close> rounds it to hundredths, a tie upwards.
\<close>

function humanSize_unit :: "nat \<Rightarrow> nat \<Rightarrow> nat" where
  "humanSize_unit bytes i =
     (if 1024 * 1024 ^ i \<le> bytes \<and> i < 4 then humanSize_unit bytes (Suc i) else i)"
  by pat_completeness auto
termination
  by (relation "measure (\<lambda>(bytes, i). 4 - i)") auto

declare humanSize_unit.simps [simp del]

definition toFixed2 :: "nat \<Rightarrow> nat \<Rightarrow> string" where
  "toFixed2 num den =
     (let hundredths = (200 * num + den) div (2 * den) in
      nat_text (hundredths div 100) @ ''.''
        @ [digit_char (hundredths mod 100 div 10), digit_char (hundredths mod 10)])"

definition unit_name :: "nat \<Rightarrow> string" where
  "unit_name i =
     (case map_of (zip [0, 1, 2, 3, 4] [''B'', ''KB'', ''MB'', ''GB'', ''TB'']) i of
        Some u \<Rightarrow> u
      | None \<Rightarrow> ''TB'')"

definition humanSize :: "nat \<Rightarrow> string" where
  "humanSize bytes =
     (if bytes = 0 then ''0 B''
      else (let i = humanSize_unit bytes 0 in toFixed2 bytes (1024 ^ i) @ '' '' @ unit_name i))"

text \<open>\<open>guessType(name)\<close>: the regular expressions test the extension of the lower-cased name.\<close>

definition endsWith :: "string \<Rightarrow> string \<Rightarrow> bool" where
  "endsWith s suffix = startsWith (rev s) (rev suffix)"

definition has_extension :: "string \<Rightarrow> string list \<Rightarrow> bool" where
  "has_extension n exts = list_ex (\<lambda>e. endsWith n (''.'' @ e)) exts"

definition guessType :: "string \<Rightarrow> string" where
  "guessType name =
     (let n = toLowerCase name in
      if has_extension n [''mp4'', ''mkv'', ''avi'', ''mov'', ''webm''] then ''video''
      else if has_extension n [''jpg'', ''jpeg'', ''png'', ''gif'', ''webp''] then ''image''
      else if has_extension n [''mp3'', ''wav'', ''flac'', ''aac''] then ''audio''
      else if has_extension n [''pdf'', ''doc'', ''docx'', ''ppt'', ''pptx'', ''xls'', ''xlsx'']
        then ''document''
      else if has_extension n [''zip'', ''rar'', ''7z'', ''tar'', ''gz''] then ''archive''
      else ''other'')"

text \<open>
  The remote listing. A parsed body is an object with the fields \<open>errno\<close> and \<open>list\<close>.
  The code compares \<open>errno\<close> with the number 0 (\<open>errno !== 0\<close>) and prints it in a
  template literal: \<open>errno\<close> is the number zero (\<open>ErrnoZero\<close>, printed \<open>0\<close>) or any
  other value (\<open>ErrnoOther\<close>, carrying the text the template literal gives it: \<open>-6\<close> for
  the number -6, \<open>undefined\<close> for a missing field). \<open>list\<close>, when present, is an array
  of entries. \<open>e_size\<close> is the number \<open>Number(f.size || 0)\<close>.
\<close>

datatype errno_field = ErrnoZero | ErrnoOther string

definition render_errno :: "errno_field \<Rightarrow> string" where
  "render_errno e = (case e of ErrnoZero \<Rightarrow> ''0'' | ErrnoOther t \<Rightarrow> t)"

record remote_entry =
  e_server_filename :: string
  e_path :: string
  e_isdir :: string
  e_size :: nat
  e_fs_id :: string
  e_md5 :: "string option"
  e_dlink :: "string option"
  e_thumbs :: "(string \<times> string) list option"

record list_response =
  r_errno :: errno_field
  r_list :: "remote_entry list option"

text \<open>
  What one listing call meets: \<open>fetch\<close> or \<open>res.text()\<close> rejects, or the body is not JSON,
  or it parses. The remote host is a function of the number of calls made before and of the
  request, so that it may answer two equal requests differently.
\<close>

datatype list_outcome = NetworkFailure js_error | NonJsonBody | JsonBody list_response

record list_params =
  p_surl :: string
  p_jsToken :: string
  p_cookie :: string
  p_dir :: "string option"

record list_request =
  q_urlParams :: "(string \<times> string) list"
  q_headers :: headers

type_synonym remote = "nat \<Rightarrow> list_request \<Rightarrow> list_outcome"

definition terabox_user_agent :: string where
  "terabox_user_agent = ''Mozilla/5.0 (Windows NT 10.0; Win64; x64) Chrome/130''"

definition list_request_of :: "list_params \<Rightarrow> list_request" where
  "list_request_of params =
     (let urlParams =
            [(''app_id'', ''250528''), (''web'', ''1''), (''channel'', ''dubox''),
             (''clienttype'', ''0''), (''shorturl'', p_surl params),
             (''jsToken'', p_jsToken params), (''page'', ''1''), (''num'', ''100''),
             (''order'', ''asc''), (''by'', ''name''),
             (''site_referer'', ''https://www.1024tera.com/'')];
          urlParams = (if truthy (p_dir params)
                       then AList.update ''dir'' (case p_dir params of Some d \<Rightarrow> d | None \<Rightarrow> []) urlParams
                       else AList.update ''root'' ''1'' urlParams)
      in \<lparr>q_urlParams = urlParams,
          q_headers =
            [(''User-Agent'', terabox_user_agent),
             (''Cookie'', p_cookie params),
             (''Referer'', ''https://www.1024tera.com/sharing/link?surl='' @ p_surl params),
             (''Origin'', ''https://www.1024tera.com''),
             (''X-Requested-With'', ''XMLHttpRequest'')]\<rparr>)"

text \<open>
  \<open>fetchList(params)\<close>. The second component is the log of the requests sent to the
  remote host so far, this one appended.
\<close>

definition fetchList ::
  "remote \<Rightarrow> list_request list \<Rightarrow> list_params \<Rightarrow> (js_error + list_response) \<times> list_request list" where
  "fetchList remote log params =
     (case remote (length log) (list_request_of params) of
        NetworkFailure e \<Rightarrow> (Inl e, log @ [list_request_of params])
      | NonJsonBody \<Rightarrow>
          (Inl (Error ''Expected JSON, got HTML (verify/auth issue)''), log @ [list_request_of params])
      | JsonBody r \<Rightarrow> (Inr r, log @ [list_request_of params]))"

record file_item =
  i_name :: string
  i_path :: string
  i_isFolder :: bool
  i_type :: string
  i_size :: nat
  i_sizeHuman :: string
  i_fsId :: string
  i_md5 :: "string option"
  i_dlink :: "string option"
  i_thumbs :: "(string \<times> string) list option"

record auth_metadata =
  m_success :: bool
  m_count :: nat
  m_items :: "file_item list"
  m_error :: "string option"

definition to_item :: "remote_entry \<Rightarrow> file_item" where
  "to_item f =
     \<lparr>i_name = e_server_filename f,
      i_path = e_path f,
      i_isFolder = (e_isdir f = ''1''),
      i_type = (if e_isdir f = ''1'' then ''folder'' else guessType (e_server_filename f)),
      i_size = e_size f,
      i_sizeHuman = humanSize (e_size f),
      i_fsId = e_fs_id f,
      i_md5 = js_or (e_md5 f) None,
      i_dlink = js_or (e_dlink f) None,
      i_thumbs = e_thumbs f\<rparr>"

definition auth_failure :: "string \<Rightarrow> auth_metadata" where
  "auth_failure msg = \<lparr>m_success = False, m_count = 0, m_items = [], m_error = Some msg\<rparr>"

definition auth_success :: "remote_entry list \<Rightarrow> auth_metadata" where
  "auth_success items =
     \<lparr>m_success = True, m_count = length (map to_item items), m_items = map to_item items,
      m_error = None\<rparr>"

text \<open>
  \<open>fetchAuthenticatedMetadata(shareUrl, authData)\<close>, returning the result and the log of the
  listing requests it sent. An exception of a listing call is caught by the function's own
  \<open>catch\<close> and becomes a failure result carrying the exception's message.
\<close>

definition fetchAuthenticatedMetadata ::
  "url_parser \<Rightarrow> remote \<Rightarrow> string \<Rightarrow> auth_data \<Rightarrow> auth_metadata \<times> list_request list" where
  "fetchAuthenticatedMetadata newURL remote shareUrl authData =
     (case extractSurl newURL shareUrl of
        None \<Rightarrow> (auth_failure ''Invalid TeraBox URL'', [])
      | Some surl \<Rightarrow>
         if surl = [] then (auth_failure ''Invalid TeraBox URL'', [])
         else
          (let cookie = cookiesToHeader (a_cookies authData);
               rootParams = \<lparr>p_surl = surl, p_jsToken = a_jsToken authData, p_cookie = cookie,
                              p_dir = None\<rparr>
           in case fetchList remote [] rootParams of
                (Inl e, log1) \<Rightarrow> (auth_failure (error_message e), log1)
              | (Inr rootData, log1) \<Rightarrow>
                 if r_errno rootData \<noteq> ErrnoZero \<or> r_list rootData = None then
                   (auth_failure (''Failed to fetch list: errno '' @ render_errno (r_errno rootData)),
                    log1)
                 else
                  (let items = (case r_list rootData of Some l \<Rightarrow> l | None \<Rightarrow> []) in
                   case items of
                     [only] \<Rightarrow>
                       if e_isdir only = ''1'' then
                         (case fetchList remote log1 (rootParams\<lparr>p_dir := Some (e_path only)\<rparr>) of
                            (Inl e, log2) \<Rightarrow> (auth_failure (error_message e), log2)
                          | (Inr innerData, log2) \<Rightarrow>
                             (case r_list innerData of
                                Some inner \<Rightarrow> (auth_success inner, log2)
                              | None \<Rightarrow> (auth_success items, log2)))
                       else (auth_success items, log1)
                   | _ \<Rightarrow> (auth_success items, log1))))"

text \<open>The parameters \<open>fetchAuthenticatedMetadata\<close> passes to its first listing call.\<close>

definition root_params :: "string \<Rightarrow> auth_data \<Rightarrow> list_params" where
  "root_params surl authData =
     \<lparr>p_surl = surl, p_jsToken = a_jsToken authData,
      p_cookie = cookiesToHeader (a_cookies authData), p_dir = None\<rparr>"

text \<open>A remote host that answers the \<open>n\<close>-th call with the \<open>n\<close>-th outcome of a script.\<close>

definition scripted_remote :: "list_outcome list \<Rightarrow> remote" where
  "scripted_remote outcomes n req =
     (if n < length outcomes then outcomes ! n else NetworkFailure (TypeError ''fetch failed''))"



definition listing :: "remote_entry list \<Rightarrow> list_outcome" where
  "listing entries = JsonBody \<lparr>r_errno = ErrnoZero, r_list = Some entries\<rparr>"

definition remote_error :: "string \<Rightarrow> list_outcome" where
  "remote_error n = JsonBody \<lparr>r_errno = ErrnoOther n, r_list = None\<rparr>"

section \<open>Session Capture Controller\<close>

datatype session_status = pending | waiting_for_login | capturing | success | failed

record auth_session =
  s_sessionId :: string
  s_status :: session_status
  s_message :: string
  s_authData :: "auth_data option"

text \<open>
  The module state is \<open>activeAuthSession\<close> and \<open>activeBrowserContext\<close> (a browser context is
  a handle, a number). Every call of \<open>startAuthSession\<close> that passes its guard has a frame:
  its \<open>sessionId\<close>, its latch \<open>captured\<close>, how far the call has run, the context it launched,
  and the session tokens of the runs of its request observer that are suspended at
  \<open>await cookies()\<close>. \<open>launches\<close> counts the calls of \<open>launchPersistentContext\<close>.
\<close>

datatype start_phase = Launching | Navigating | Finished

record start_frame =
  fr_sessionId :: string
  fr_captured :: bool
  fr_phase :: start_phase
  fr_context :: "nat option"
  fr_pending :: "string list"

record controller =
  activeAuthSession :: "auth_session option"
  activeBrowserContext :: "nat option"
  frames :: "start_frame list"
  launches :: nat

definition initial_controller :: controller where
  "initial_controller =
     \<lparr>activeAuthSession = None, activeBrowserContext = None, frames = [], launches = 0\<rparr>"

text \<open>
  JavaScript runs each piece of code between two \<open>await\<close>s without interruption; an event
  is one such piece. The number of a frame says which call of \<open>startAuthSession\<close> the piece
  belongs to.
  \<^item> \<open>StartCalled now\<close>: \<open>startAuthSession()\<close> is called, \<open>Date.now()\<close> is \<open>now\<close>; it runs
    to its early return or to \<open>await launchPersistentContext\<close>.
  \<^item> \<open>LaunchResolved i h\<close>: the launch of call \<open>i\<close> gave the context \<open>h\<close>; the page is
    taken, both handlers are installed and \<open>page.goto\<close> is issued.
  \<^item> \<open>LaunchRejected i e\<close>: the launch threw \<open>e\<close>.
  \<^item> \<open>RequestSeen i url\<close>: the page of call \<open>i\<close> issues a request; the observer runs to
    a \<open>return\<close> or to \<open>await cookies()\<close>.
  \<^item> \<open>CookiesResolved i cs t\<close>: the oldest suspended observer of call \<open>i\<close> resumes with
    the cookies \<open>cs\<close>, \<open>new Date()\<close> is \<open>t\<close>. \<open>CookiesRejected i\<close>: it resumes with an
    exception, which is logged.
  \<^item> \<open>ContextClosed i\<close>: the \<open>close\<close> handler of call \<open>i\<close> runs.
  \<^item> \<open>GotoResolved i\<close>, \<open>GotoRejected i e\<close>: \<open>await page.goto\<close> of call \<open>i\<close> returns
    or throws.
  \<^item> \<open>CloseCalled\<close>: \<open>closeAuthSession()\<close>, taken as one piece.
\<close>

datatype event =
    StartCalled nat
  | LaunchResolved nat nat
  | LaunchRejected nat js_error
  | RequestSeen nat string
  | CookiesResolved nat "cookie list" int
  | CookiesRejected nat
  | ContextClosed nat
  | GotoResolved nat
  | GotoRejected nat js_error
  | CloseCalled

definition session_is_waiting :: "controller \<Rightarrow> bool" where
  "session_is_waiting c =
     (case activeAuthSession c of None \<Rightarrow> False | Some s \<Rightarrow> s_status s = waiting_for_login)"

text \<open>
  \<open>startAuthSession()\<close> up to its first \<open>await\<close>: the session it returns at once, if it
  does, and the state it leaves.
\<close>

definition startAuthSession_enter :: "nat \<Rightarrow> controller \<Rightarrow> auth_session option \<times> controller" where
  "startAuthSession_enter now c =
     (if session_is_waiting c then (activeAuthSession c, c)
      else
       (let sessionId = ''auth_'' @ nat_text now in
        (None,
         c\<lparr>activeAuthSession :=
              Some \<lparr>s_sessionId = sessionId, s_status = pending,
                    s_message = ''Starting authentication session with Chrome profile...'',
                    s_authData = None\<rparr>,
           frames := frames c @
              [\<lparr>fr_sessionId = sessionId, fr_captured = False, fr_phase = Launching,
                fr_context = None, fr_pending = []\<rparr>],
           launches := Suc (launches c)\<rparr>)))"

definition set_session ::
  "string \<Rightarrow> session_status \<Rightarrow> string \<Rightarrow> auth_data option \<Rightarrow> controller \<Rightarrow> controller" where
  "set_session sessionId st msg ad c =
     c\<lparr>activeAuthSession :=
         Some \<lparr>s_sessionId = sessionId, s_status = st, s_message = msg, s_authData = ad\<rparr>\<rparr>"

definition set_frame :: "nat \<Rightarrow> start_frame \<Rightarrow> controller \<Rightarrow> controller" where
  "set_frame i fr c = c\<lparr>frames := (frames c)[i := fr]\<rparr>"

definition session_status_is_success :: "controller \<Rightarrow> bool" where
  "session_status_is_success c =
     (case activeAuthSession c of None \<Rightarrow> False | Some s \<Rightarrow> s_status s = success)"

definition frame_step :: "url_parser \<Rightarrow> nat \<Rightarrow> start_frame \<Rightarrow> event \<Rightarrow> controller \<Rightarrow> controller" where
  "frame_step newURL i fr ev c =
     (case ev of
        LaunchResolved _ h \<Rightarrow>
          if fr_phase fr = Launching
          then set_frame i (fr\<lparr>fr_phase := Navigating, fr_context := Some h\<rparr>)
                 (c\<lparr>activeBrowserContext := Some h\<rparr>)
          else c
      | LaunchRejected _ e \<Rightarrow>
          if fr_phase fr = Launching
          then set_frame i (fr\<lparr>fr_phase := Finished\<rparr>)
                 (set_session (fr_sessionId fr) failed (error_message e) None c)
          else c
      | RequestSeen _ url \<Rightarrow>
          if fr_phase fr = Launching then c
          else if fr_captured fr then c
          else if \<not> includes_str url ''jsToken='' then c
          else
           (case newURL url of
              Inl e \<Rightarrow> c
            | Inr u \<Rightarrow>
               (case searchParams_get u ''jsToken'' of
                  None \<Rightarrow> c
                | Some jsToken \<Rightarrow>
                    if jsToken = [] \<or> length jsToken < 20 then c
                    else
                     (case activeBrowserContext c of
                        None \<Rightarrow> c
                      | Some h \<Rightarrow> set_frame i (fr\<lparr>fr_pending := fr_pending fr @ [jsToken]\<rparr>) c)))
      | CookiesResolved _ allCookies t \<Rightarrow>
          (case fr_pending fr of
             [] \<Rightarrow> c
           | jsToken # rest \<Rightarrow>
               set_frame i (fr\<lparr>fr_captured := True, fr_pending := rest\<rparr>)
                 (set_session (fr_sessionId fr) success ''Authentication captured successfully''
                    (Some \<lparr>a_provider = ''terabox'', a_jsToken = jsToken,
                           a_cookies = filter (\<lambda>k. includes_str (c_domain k) ''1024tera''
                                                 \<or> includes_str (c_domain k) ''terabox'') allCookies,
                           a_capturedAt = t\<rparr>) c))
      | CookiesRejected _ \<Rightarrow>
          (case fr_pending fr of
             [] \<Rightarrow> c
           | jsToken # rest \<Rightarrow> set_frame i (fr\<lparr>fr_pending := rest\<rparr>) c)
      | ContextClosed _ \<Rightarrow>
          if fr_phase fr = Launching then c
          else
           (if \<not> fr_captured fr \<and> \<not> session_status_is_success c
            then set_session (fr_sessionId fr) failed
                   ''Browser closed before authentication was captured'' None c
            else c)\<lparr>activeBrowserContext := None\<rparr>
      | GotoResolved _ \<Rightarrow>
          if fr_phase fr = Navigating
          then set_frame i (fr\<lparr>fr_phase := Finished\<rparr>)
                 (set_session (fr_sessionId fr) waiting_for_login
                    ''Browser opened with your Chrome profile. Navigate to any share link to capture auth.''
                    None c)
          else c
      | GotoRejected _ e \<Rightarrow>
          if fr_phase fr = Navigating
          then set_frame i (fr\<lparr>fr_phase := Finished\<rparr>)
                 (set_session (fr_sessionId fr) failed (error_message e) None c)
          else c
      | _ \<Rightarrow> c)"

definition event_frame :: "event \<Rightarrow> nat option" where
  "event_frame ev =
     (case ev of
        StartCalled _ \<Rightarrow> None
      | LaunchResolved i _ \<Rightarrow> Some i
      | LaunchRejected i _ \<Rightarrow> Some i
      | RequestSeen i _ \<Rightarrow> Some i
      | CookiesResolved i _ _ \<Rightarrow> Some i
      | CookiesRejected i \<Rightarrow> Some i
      | ContextClosed i \<Rightarrow> Some i
      | GotoResolved i \<Rightarrow> Some i
      | GotoRejected i _ \<Rightarrow> Some i
      | CloseCalled \<Rightarrow> None)"

definition step :: "url_parser \<Rightarrow> event \<Rightarrow> controller \<Rightarrow> controller" where
  "step newURL ev c =
     (case ev of
        StartCalled now \<Rightarrow> snd (startAuthSession_enter now c)
      | CloseCalled \<Rightarrow> c\<lparr>activeBrowserContext := None, activeAuthSession := None\<rparr>
      | _ \<Rightarrow>
         (case event_frame ev of
            None \<Rightarrow> c
          | Some i \<Rightarrow> if i < length (frames c) then frame_step newURL i (frames c ! i) ev c else c))"

definition run :: "url_parser \<Rightarrow> event list \<Rightarrow> controller \<Rightarrow> controller" where
  "run newURL evs c = fold (step newURL) evs c"

definition getAuthSessionStatus :: "controller \<Rightarrow> auth_session option" where
  "getAuthSessionStatus c = activeAuthSession c"

definition current_status :: "controller \<Rightarrow> session_status option" where
  "current_status c = map_option s_status (getAuthSessionStatus c)"

definition current_sessionId :: "controller \<Rightarrow> string option" where
  "current_sessionId c = map_option s_sessionId (getAuthSessionStatus c)"


text \<open>
  A run in which the landing page itself issues a request carrying a session token while
  \<open>page.goto\<close> is still loading it, and a state in which a capture waits for the login.
\<close>

definition capture_request_url :: string where
  "capture_request_url =
     ''https://www.1024tera.com/api/user/getinfo?jsToken=0123456789ABCDEF0123456789ABCDEF''"

definition early_capture_trace :: "event list" where
  "early_capture_trace =
     [StartCalled 1700000000000,
      LaunchResolved 0 1,
      RequestSeen 0 capture_request_url,
      CookiesResolved 0 [] 1700000000500,
      GotoResolved 0]"

definition waiting_controller :: controller where
  "waiting_controller =
     run parse_plain_url [StartCalled 1700000000000, LaunchResolved 0 1, GotoResolved 0]
       initial_controller"


section \<open>Theorems: Streaming/Download Gateway\<close>

lemma lower_names:
  "toLowerCase ''Content-Disposition'' = ''content-disposition''"
  "toLowerCase ''Accept-Ranges'' = ''accept-ranges''"
  "toLowerCase ''Connection'' = ''connection''"
  "toLowerCase ''Access-Control-Allow-Origin'' = ''access-control-allow-origin''"
  "toLowerCase ''Access-Control-Allow-Headers'' = ''access-control-allow-headers''"
  "toLowerCase ''Access-Control-Expose-Headers'' = ''access-control-expose-headers''"
  "toLowerCase ''Content-Type'' = ''content-type''"
  "toLowerCase ''Content-Length'' = ''content-length''"
  "toLowerCase ''Content-Range'' = ''content-range''"
  "toLowerCase ''content-range'' = ''content-range''"
  "toLowerCase ''content-type'' = ''content-type''"
  by (simp_all add: toLowerCase_def to_lower_char_def)

lemma map_of_setHeader:
  "map_of (setHeader k v hs) = (map_of hs)(toLowerCase k \<mapsto> v)"
  by (simp add: setHeader_def update_conv')

lemma forward_header_lookup:
  assumes "toLowerCase (fst kv) = fst kv"
  shows "map_of (forward_header b kv acc) ''content-range'' =
           (if fst kv = ''content-range'' \<and> \<not> b then Some (snd kv) else map_of acc ''content-range'')"
  using assms by (auto simp: forward_header_def Let_def map_of_setHeader skipHeaders_def)

lemma fold_forward_lookup:
  "headers_iterated hs \<Longrightarrow>
   map_of (fold (forward_header b) hs acc) ''content-range'' =
     (if b then map_of acc ''content-range''
      else (case map_of hs ''content-range'' of Some v \<Rightarrow> Some v | None \<Rightarrow> map_of acc ''content-range''))"
proof (induction hs arbitrary: acc)
  case Nil
  then show ?case by simp
next
  case (Cons kv hs)
  have low: "toLowerCase (fst kv) = fst kv" and rest: "headers_iterated hs"
    using Cons.prems by (auto simp: headers_iterated_def split: if_splits)
  have absent: "map_of hs ''content-range'' = None" if key: "fst kv = ''content-range''"
  proof -
    have "fst kv \<notin> fst ` set (filter (\<lambda>kv. fst kv \<noteq> ''set-cookie'') hs)"
      using Cons.prems key by (simp add: headers_iterated_def)
    then have "''content-range'' \<notin> fst ` set hs"
      using key by auto
    then show ?thesis by (simp add: map_of_eq_None_iff)
  qed
  have here: "map_of (forward_header b kv acc) ''content-range'' =
           (if fst kv = ''content-range'' \<and> \<not> b then Some (snd kv) else map_of acc ''content-range'')"
    by (rule forward_header_lookup [OF low])
  have tail: "map_of (kv # hs) ''content-range'' =
           (if fst kv = ''content-range'' then Some (snd kv) else map_of hs ''content-range'')"
    by (cases kv) simp
  show ?case
    unfolding fold_simps Cons.IH [OF rest] here tail
    using absent by (simp split: option.splits)
qed

lemma stream_fixed_headers_lookup:
  "map_of (stream_fixed_headers hs) ''content-range'' = map_of hs ''content-range''"
  by (simp add: stream_fixed_headers_def map_of_setHeader lower_names)

lemma stream_handler_streams:
  assumes "js_or (f_downloadUrl f) (f_dlink f) = Some u" and "u \<noteq> []"
    and "fetch \<lparr>o_url = u, o_headers = stream_outbound_headers token rangeHdr\<rparr> = Inr response"
    and "response_ok response"
  shows "stream_handler fetch (Some f) token rangeHdr =
      StreamReply (if rangeHdr = Some ''bytes=0-'' \<or> \<not> truthy rangeHdr then 200 else 206)
        (stream_fixed_headers
           (fold (forward_header (rangeHdr = Some ''bytes=0-'' \<or> \<not> truthy rangeHdr))
              (up_headers response) []))
        (pipe_body (up_body response))"
  using assms by (simp add: stream_handler_def Let_def)

lemma sample_file_url:
  "js_or (f_downloadUrl sample_file) (f_dlink sample_file) = Some ''https://d.1024tera.com/file/1''"
  by (simp add: sample_file_def js_or_def truthy_def)

lemma sample_partial_ok: "response_ok sample_partial" "headers_iterated (up_headers sample_partial)"
  by (simp_all add: sample_partial_def response_ok_def headers_iterated_def lower_names)

text \<open>
  C1 (as amended). When the upstream fetch succeeds, the local status is 200 and no
  \<open>Content-Range\<close> is sent if the request has no \<open>Range\<close> header, an empty one, or
  exactly \<open>bytes=0-\<close>; for every other \<open>Range\<close> value the local status is 206 and the
  upstream \<open>Content-Range\<close> is sent as it came (none, if upstream sent none). The status of
  the upstream answer, 200 or 206, plays no part.
\<close>

theorem stream_status_rewrite:
  assumes "js_or (f_downloadUrl f) (f_dlink f) = Some u" and "u \<noteq> []"
    and "fetch \<lparr>o_url = u, o_headers = stream_outbound_headers token rangeHdr\<rparr> = Inr response"
    and "response_ok response"
    and "headers_iterated (up_headers response)"
  shows "reply_status (stream_handler fetch (Some f) token rangeHdr) =
           (if rangeHdr = None \<or> rangeHdr = Some [] \<or> rangeHdr = Some ''bytes=0-'' then 200 else 206)
       \<and> reply_header (stream_handler fetch (Some f) token rangeHdr) ''Content-Range'' =
           (if rangeHdr = None \<or> rangeHdr = Some [] \<or> rangeHdr = Some ''bytes=0-'' then None
            else headers_get (up_headers response) ''Content-Range'')"
proof -
  let ?init = "rangeHdr = Some ''bytes=0-'' \<or> \<not> truthy rangeHdr"
  have init: "?init \<longleftrightarrow> (rangeHdr = None \<or> rangeHdr = Some [] \<or> rangeHdr = Some ''bytes=0-'')"
    by (auto simp: truthy_def split: option.splits)
  have reply: "stream_handler fetch (Some f) token rangeHdr =
      StreamReply (if ?init then 200 else 206)
        (stream_fixed_headers (fold (forward_header ?init) (up_headers response) []))
        (pipe_body (up_body response))"
    using assms(1-4) by (rule stream_handler_streams [of f u fetch token rangeHdr response])
  show ?thesis
    unfolding reply
    using fold_forward_lookup [OF assms(5), of ?init "[]"] init
    by (auto simp: reply_status_def reply_header_def headers_get_def lower_names
        stream_fixed_headers_lookup split: option.splits)
qed

theorem stream_status_rewrite_witness:
  "reply_status (stream_handler (fetch_returns sample_partial) (Some sample_file) None
       (Some ''bytes=1000-2000'')) = 206
   \<and> reply_header (stream_handler (fetch_returns sample_partial) (Some sample_file) None
       (Some ''bytes=1000-2000'')) ''Content-Range'' = Some ''bytes 1000-2000/5000''
   \<and> reply_status (stream_handler (fetch_returns sample_partial) (Some sample_file) None
       (Some ''bytes=0-'')) = 200
   \<and> reply_header (stream_handler (fetch_returns sample_partial) (Some sample_file) None
       (Some ''bytes=0-'')) ''Content-Range'' = None"
  using stream_status_rewrite [OF sample_file_url _ _ sample_partial_ok,
      of "fetch_returns sample_partial" None "Some ''bytes=1000-2000''"]
    stream_status_rewrite [OF sample_file_url _ _ sample_partial_ok,
      of "fetch_returns sample_partial" None "Some ''bytes=0-''"]
  by (simp add: fetch_returns_def headers_get_def lower_names sample_partial_def)

text \<open>
  C1 as stated fails for a \<open>Range\<close> header with an empty value: it is a \<open>Range\<close> value
  other than \<open>bytes=0-\<close>, yet the reply is 200 without \<open>Content-Range\<close>, although upstream
  answered 206 with one.
\<close>

theorem empty_range_counterexample:
  "Some [] \<noteq> (None :: string option) \<and> Some [] \<noteq> Some ''bytes=0-''
   \<and> up_status sample_partial = 206
   \<and> reply_status (stream_handler (fetch_returns sample_partial) (Some sample_file) None (Some []))
       = 200
   \<and> reply_header (stream_handler (fetch_returns sample_partial) (Some sample_file) None (Some []))
       ''Content-Range'' = None"
proof -
  have "stream_handler (fetch_returns sample_partial) (Some sample_file) None (Some []) =
      StreamReply 200
        (stream_fixed_headers (fold (forward_header True) (up_headers sample_partial) []))
        (pipe_body (up_body sample_partial))"
    using stream_handler_streams [OF sample_file_url _ _ sample_partial_ok(1),
        of "fetch_returns sample_partial" None "Some []"]
    by (simp add: fetch_returns_def truthy_def)
  then show ?thesis
    using fold_forward_lookup [OF sample_partial_ok(2), of True "[]"]
    by (simp add: reply_status_def reply_header_def lower_names stream_fixed_headers_lookup
        sample_partial_def)
qed

text \<open>
  C5. When the upstream status is not 2xx (206 is 2xx), the handler answers with the upstream
  status and a JSON body whose \<open>expired\<close> flag is true exactly for 401 and 403: that flag,
  with its message, is the link-expired signal; every other status gets the generic upstream
  failure.
\<close>

theorem stream_failure_classified:
  assumes "js_or (f_downloadUrl f) (f_dlink f) = Some u" and "u \<noteq> []"
    and "fetch \<lparr>o_url = u, o_headers = stream_outbound_headers token rangeHdr\<rparr> = Inr response"
    and "\<not> response_ok response"
  shows "stream_handler fetch (Some f) token rangeHdr =
           JsonReply (up_status response)
             [(''error'', JString ''Stream failed''),
              (''status'', JNumber (up_status response)),
              (''expired'', JBoolean (up_status response = 401 \<or> up_status response = 403)),
              (''message'', JString
                 (if up_status response = 401 \<or> up_status response = 403
                  then ''The download link has expired. Run Auth Fetch again to get fresh links.''
                  else ''Could not stream file.''))]"
  using assms by (auto simp: stream_handler_def Let_def response_ok_def)

theorem stream_failure_classified_witness:
  "map_of (case stream_handler (fetch_returns (sample_status 403)) (Some sample_file) None None of
             JsonReply s body \<Rightarrow> body | StreamReply s hs b \<Rightarrow> []) ''expired'' = Some (JBoolean True)
   \<and> map_of (case stream_handler (fetch_returns (sample_status 500)) (Some sample_file) None None of
             JsonReply s body \<Rightarrow> body | StreamReply s hs b \<Rightarrow> []) ''expired'' = Some (JBoolean False)
   \<and> reply_status (stream_handler (fetch_returns (sample_status 403)) (Some sample_file) None None)
       = 403"
  using stream_failure_classified [OF sample_file_url, of "fetch_returns (sample_status 403)" None None
      "sample_status 403"]
    stream_failure_classified [OF sample_file_url, of "fetch_returns (sample_status 500)" None None
      "sample_status 500"]
  by (simp add: fetch_returns_def sample_status_def response_ok_def reply_status_def)

lemma encode_unreserved: "list_all uri_unreserved s \<Longrightarrow> encodeURIComponent s = s"
  by (induction s) (simp_all add: encodeURIComponent_def)

lemma encode_length:
  "length (encodeURIComponent s) = length s + 2 * length (filter (\<lambda>c. \<not> uri_unreserved c) s)"
  by (induction s) (simp_all add: encodeURIComponent_def percent_encode_def)

lemma encode_fixed_iff: "encodeURIComponent s = s \<longleftrightarrow> list_all uri_unreserved s"
proof
  assume "encodeURIComponent s = s"
  then have "length (filter (\<lambda>c. \<not> uri_unreserved c) s) = 0"
    using encode_length [of s] by simp
  then have "filter (\<lambda>c. \<not> uri_unreserved c) s = []" by simp
  then show "list_all uri_unreserved s"
    by (simp add: filter_empty_conv list_all_iff)
next
  assume "list_all uri_unreserved s"
  then show "encodeURIComponent s = s" by (rule encode_unreserved)
qed

lemma download_handler_streams:
  assumes "js_or (f_downloadUrl f) (f_dlink f) = Some u" and "u \<noteq> []"
    and "fetch \<lparr>o_url = u, o_headers = download_outbound_headers token\<rparr> = Inr response"
    and "response_ok response"
  shows "reply_status (download_handler fetch (Some f) token) = 200
       \<and> reply_header (download_handler fetch (Some f) token) ''Content-Disposition''
           = Some (content_disposition (f_name f))"
  using assms
  by (simp add: download_handler_def Let_def reply_status_def reply_header_def map_of_setHeader
      lower_names split: option.splits)

text \<open>
  C9 (as amended). A successful download is answered with \<open>Content-Disposition: attachment\<close>
  carrying the percent-encoded file name twice: quoted in the \<open>filename\<close> parameter and after
  \<open>UTF-8''\<close> in the \<open>filename*\<close> parameter. The \<open>filename\<close> parameter is the plain name
  if and only if the name has no character that the encoding escapes.
\<close>

theorem download_content_disposition:
  assumes "js_or (f_downloadUrl f) (f_dlink f) = Some u" and "u \<noteq> []"
    and "fetch \<lparr>o_url = u, o_headers = download_outbound_headers token\<rparr> = Inr response"
    and "response_ok response"
  shows "reply_status (download_handler fetch (Some f) token) = 200
       \<and> reply_header (download_handler fetch (Some f) token) ''Content-Disposition''
           = Some (''attachment; filename='' @ [CHR 0x22] @ encodeURIComponent (f_name f) @ [CHR 0x22]
                   @ ''; filename*=UTF-8'' @ [CHR 0x27, CHR 0x27] @ encodeURIComponent (f_name f))
       \<and> (encodeURIComponent (f_name f) = f_name f \<longleftrightarrow> list_all uri_unreserved (f_name f))"
  using download_handler_streams [of f u fetch token response] assms
    encode_fixed_iff [of "f_name f"]
  by (simp add: content_disposition_def Let_def)

lemma encode_sample_name: "encodeURIComponent ''a b.mp4'' = ''a%20b.mp4''"
  by (simp add: encodeURIComponent_def uri_unreserved_def percent_encode_def hex_digit_def)

theorem download_content_disposition_witness:
  "reply_status (download_handler (fetch_returns (sample_status 200)) (Some sample_file) None) = 200
   \<and> reply_header (download_handler (fetch_returns (sample_status 200)) (Some sample_file) None)
       ''Content-Disposition''
       = Some (''attachment; filename='' @ [CHR 0x22] @ ''a%20b.mp4'' @ [CHR 0x22]
               @ ''; filename*=UTF-8'' @ [CHR 0x27, CHR 0x27] @ ''a%20b.mp4'')"
  using download_content_disposition [OF sample_file_url, of "fetch_returns (sample_status 200)" None
      "sample_status 200"]
  by (simp add: fetch_returns_def sample_status_def response_ok_def sample_file_def
      encode_sample_name)

text \<open>
  C9 as stated fails for the file name \<open>a b.mp4\<close>: the \<open>filename\<close> parameter carries
  \<open>a%20b.mp4\<close>, and the header has no plain \<open>filename="a b.mp4"\<close>.
\<close>

theorem plain_filename_counterexample:
  "f_name sample_file = ''a b.mp4''
   \<and> reply_status (download_handler (fetch_returns (sample_status 200)) (Some sample_file) None) = 200
   \<and> reply_header (download_handler (fetch_returns (sample_status 200)) (Some sample_file) None)
       ''Content-Disposition''
       = Some (''attachment; filename='' @ [CHR 0x22] @ ''a%20b.mp4'' @ [CHR 0x22]
               @ ''; filename*=UTF-8'' @ [CHR 0x27, CHR 0x27] @ ''a%20b.mp4'')
   \<and> \<not> includes_str (''attachment; filename='' @ [CHR 0x22] @ ''a%20b.mp4'' @ [CHR 0x22]
               @ ''; filename*=UTF-8'' @ [CHR 0x27, CHR 0x27] @ ''a%20b.mp4'')
            (''filename='' @ [CHR 0x22] @ ''a b.mp4'' @ [CHR 0x22])"
  using download_handler_streams [OF sample_file_url, of "fetch_returns (sample_status 200)" None
      "sample_status 200"]
  by (simp add: fetch_returns_def sample_status_def response_ok_def sample_file_def
      content_disposition_def encode_sample_name)


section \<open>Theorems: Share Reference Resolver\<close>

lemma startsWith_iff: "startsWith s p \<longleftrightarrow> (\<exists>r. s = p @ r)"
  by (induction s p rule: startsWith.induct) auto

lemma takeWhile_token_empty: "takeWhile token_char r = [] \<longleftrightarrow> (r = [] \<or> \<not> token_char (hd r))"
  by (cases r) auto

lemma match_here: "startsWith (c # cs) ''/s/'' \<Longrightarrow> c # cs = ''/s/'' @ drop 2 cs"
  by (auto simp: startsWith_iff)

lemma match_share_path_sound: "match_share_path p = Some t \<Longrightarrow> share_path_token p t"
proof (induction p)
  case Nil
  then show ?case by simp
next
  case (Cons c cs)
  let ?tok = "takeWhile token_char (drop 2 cs)"
  from Cons.prems
  have unfolded: "(if startsWith (c # cs) ''/s/'' \<and> ?tok \<noteq> [] then Some ?tok
                   else match_share_path cs) = Some t"
    by (simp only: match_share_path.simps)
  show ?case
  proof (cases "startsWith (c # cs) ''/s/'' \<and> ?tok \<noteq> []")
    case True
    with unfolded have t: "t = ?tok" by (simp only: simp_thms if_True option.inject)
    define r where "r = drop 2 cs"
    have r: "c # cs = ''/s/'' @ r" "drop 2 cs = r"
      using True match_here [of c cs] by (simp_all only: r_def)
    have "r = ?tok @ dropWhile token_char r" using r by simp
    then have "c # cs = [] @ ''/s/'' @ t @ dropWhile token_char r"
      using r t by simp
    moreover have "t \<noteq> []" using True t by simp
    moreover have "list_all token_char t"
      unfolding t list_all_iff by (auto dest: set_takeWhileD)
    moreover have "dropWhile token_char r = [] \<or> \<not> token_char (hd (dropWhile token_char r))"
      using hd_dropWhile [of token_char r] by blast
    ultimately show ?thesis
      unfolding share_path_token_def
      by (intro exI [of _ "[]"] exI [of _ "dropWhile token_char r"]) simp
  next
    case False
    with unfolded have "match_share_path cs = Some t" by (simp only: if_False)
    then have "share_path_token cs t" by (rule Cons.IH)
    then obtain pre rest where pr: "cs = pre @ ''/s/'' @ t @ rest" "t \<noteq> []" "list_all token_char t"
        "rest = [] \<or> \<not> token_char (hd rest)"
        and left: "\<And>pre' rest'. cs = pre' @ ''/s/'' @ rest' \<Longrightarrow> length pre' < length pre
               \<Longrightarrow> rest' = [] \<or> \<not> token_char (hd rest')"
      unfolding share_path_token_def by blast
    have left': "rest' = [] \<or> \<not> token_char (hd rest')"
      if eq: "c # cs = pre' @ ''/s/'' @ rest'" and len: "length pre' < length (c # pre)"
      for pre' rest'
    proof (cases pre')
      case Nil
      then have "startsWith (c # cs) ''/s/''" and "drop 2 cs = rest'"
        using eq by (auto simp: startsWith_iff)
      with False have "takeWhile token_char rest' = []" by blast
      then show ?thesis by (simp add: takeWhile_token_empty)
    next
      case (Cons a pre'')
      then have "cs = pre'' @ ''/s/'' @ rest'" "length pre'' < length pre"
        using eq len by auto
      then show ?thesis by (rule left)
    qed
    have "c # cs = (c # pre) @ ''/s/'' @ t @ rest" using pr(1) by simp
    then show ?thesis
      unfolding share_path_token_def using pr(2-4) left' by blast
  qed
qed

lemma takeWhile_token_exact:
  "list_all token_char t \<Longrightarrow> rest = [] \<or> \<not> token_char (hd rest) \<Longrightarrow>
   takeWhile token_char (t @ rest) = t"
  by (cases rest) (auto simp: list_all_iff takeWhile_tail)

lemma match_share_path_complete:
  assumes "p = pre @ ''/s/'' @ t @ rest" "t \<noteq> []" "list_all token_char t"
    "rest = [] \<or> \<not> token_char (hd rest)"
    "\<And>pre' rest'. p = pre' @ ''/s/'' @ rest' \<Longrightarrow> length pre' < length pre
               \<Longrightarrow> rest' = [] \<or> \<not> token_char (hd rest')"
  shows "match_share_path p = Some t"
  using assms
proof (induction pre arbitrary: p)
  case Nil
  then have "p = CHR ''/'' # (''s/'' @ t @ rest)" by simp
  moreover have "takeWhile token_char (t @ rest) = t"
    using Nil.prems(3,4) by (rule takeWhile_token_exact)
  ultimately show ?case using Nil.prems(2) by simp
next
  case (Cons c pre)
  let ?cs = "pre @ ''/s/'' @ t @ rest"
  have p: "p = c # ?cs" using Cons.prems(1) by simp
  have nohere: "\<not> (startsWith (c # ?cs) ''/s/'' \<and> takeWhile token_char (drop 2 ?cs) \<noteq> [])"
  proof
    assume h: "startsWith (c # ?cs) ''/s/'' \<and> takeWhile token_char (drop 2 ?cs) \<noteq> []"
    define r where "r = drop 2 ?cs"
    have r: "c # ?cs = ''/s/'' @ r" "drop 2 ?cs = r"
      using h match_here [of c ?cs] by (simp_all only: r_def)
    have "p = [] @ ''/s/'' @ r" using p r by simp
    then have "r = [] \<or> \<not> token_char (hd r)" by (rule Cons.prems(5)) simp
    then have "takeWhile token_char r = []" by (simp add: takeWhile_token_empty)
    moreover from h have "takeWhile token_char (drop 2 ?cs) \<noteq> []" by (rule conjunct2)
    ultimately show False by (simp only: r(2) simp_thms)
  qed
  have "match_share_path ?cs = Some t"
  proof (rule Cons.IH [OF refl Cons.prems(2-4)])
    fix pre' rest' assume "?cs = pre' @ ''/s/'' @ rest'" "length pre' < length pre"
    then have "p = (c # pre') @ ''/s/'' @ rest'" "length (c # pre') < length (c # pre)"
      using p by simp_all
    then show "rest' = [] \<or> \<not> token_char (hd rest')" by (rule Cons.prems(5))
  qed
  moreover have "match_share_path (c # ?cs) = match_share_path ?cs"
    using nohere by (simp only: match_share_path.simps if_False)
  ultimately show ?case unfolding p by (simp only:)
qed

lemma match_share_path_iff: "match_share_path p = Some t \<longleftrightarrow> share_path_token p t"
proof
  assume "match_share_path p = Some t"
  then show "share_path_token p t" by (rule match_share_path_sound)
next
  assume "share_path_token p t"
  then obtain pre rest where "p = pre @ ''/s/'' @ t @ rest" "t \<noteq> []" "list_all token_char t"
        "rest = [] \<or> \<not> token_char (hd rest)"
        "\<And>pre' rest'. p = pre' @ ''/s/'' @ rest' \<Longrightarrow> length pre' < length pre
               \<Longrightarrow> rest' = [] \<or> \<not> token_char (hd rest')"
    unfolding share_path_token_def by blast
  then show "match_share_path p = Some t" by (rule match_share_path_complete)
qed

lemma match_share_path_nonempty: "match_share_path p = Some t \<Longrightarrow> t \<noteq> []"
  using match_share_path_iff [of p t] by (auto simp: share_path_token_def)

lemma strip_discriminator_code:
  "v \<noteq> [] \<Longrightarrow> (if startsWith v ''1'' then drop 1 v else v) = strip_discriminator v"
  by (cases v) (auto simp: strip_discriminator_def)

text \<open>The value of the resolver on a string that parses.\<close>

lemma extractSurl_Inr:
  assumes "newURL s = Inr u"
  shows "extractSurl newURL s =
           (if truthy (searchParams_get u ''surl'')
            then map_option strip_discriminator (searchParams_get u ''surl'')
            else map_option strip_discriminator (match_share_path (pathname u)))"
proof (cases "truthy (searchParams_get u ''surl'')")
  case True
  then obtain q where "searchParams_get u ''surl'' = Some q" "q \<noteq> []"
    by (auto simp: truthy_def split: option.splits)
  then show ?thesis using assms True
    by (simp add: extractSurl_def extractSurl_body_def strip_discriminator_code)
next
  case False
  show ?thesis
  proof (cases "match_share_path (pathname u)")
    case None
    then show ?thesis using assms False
      by (auto simp: extractSurl_def extractSurl_body_def truthy_def split: option.splits)
  next
    case (Some t)
    then have "t \<noteq> []" by (rule match_share_path_nonempty)
    then show ?thesis using assms False Some
      by (simp add: extractSurl_def extractSurl_body_def strip_discriminator_code)
  qed
qed

lemma extractSurl_parsed:
  assumes "newURL s = Inr u"
  shows "extractSurl newURL s = Some r \<longleftrightarrow> derived_reference u r"
proof -
  have tok: "share_path_token (pathname u) v \<longleftrightarrow> match_share_path (pathname u) = Some v" for v
    by (simp add: match_share_path_iff)
  show ?thesis
    unfolding extractSurl_Inr [of newURL s u, OF assms] derived_reference_def tok
    by (auto simp: truthy_def split: option.splits)
qed

lemma parse_samples:
  "parse_plain_url ''https://host/s/1abc123'' =
     Inr \<lparr>protocol = ''https:'', host = ''host'', pathname = ''/s/1abc123'', searchParams = []\<rparr>"
  "parse_plain_url ''https://host/share?surl=xyz'' =
     Inr \<lparr>protocol = ''https:'', host = ''host'', pathname = ''/share'',
          searchParams = [(''surl'', ''xyz'')]\<rparr>"
  "parse_plain_url ''https://host/s/1abc?surl='' =
     Inr \<lparr>protocol = ''https:'', host = ''host'', pathname = ''/s/1abc'',
          searchParams = [(''surl'', [])]\<rparr>"
  "parse_plain_url ''https://example.org/s/1abc'' =
     Inr \<lparr>protocol = ''https:'', host = ''example.org'', pathname = ''/s/1abc'', searchParams = []\<rparr>"
  "parse_plain_url ''https://www.1024tera.com/s/1abc'' =
     Inr \<lparr>protocol = ''https:'', host = ''www.1024tera.com'', pathname = ''/s/1abc'',
          searchParams = []\<rparr>"
  "parse_plain_url ''not a url'' = Inl (TypeError ''Invalid URL'')"
  "parse_plain_url ''https://host/share?surl=&surl=1q'' =
     Inr \<lparr>protocol = ''https:'', host = ''host'', pathname = ''/share'',
          searchParams = [(''surl'', []), (''surl'', ''1q'')]\<rparr>"
  by (simp_all add: parse_plain_url_def parse_query_def parse_pair_def Let_def toLowerCase_def
      to_lower_char_def alpha_char_def scheme_char_def)

lemma match_samples:
  "match_share_path ''/s/1abc123'' = Some ''1abc123''"
  "match_share_path ''/s/1abc'' = Some ''1abc''"
  "match_share_path ''/share'' = None"
  by (simp_all add: token_char_def)

text \<open>
  C7 (as amended). The resolver returns a value for every string and every behaviour of the
  URL parser: nothing when the parser throws; on a parsed URL it yields exactly the reference
  of the derivation rule, in which the \<open>surl\<close> query parameter is used when it is present
  and not empty, else the token of the first \<open>/s/<token>\<close> place of the path, with one
  leading \<open>1\<close> stripped; nothing when neither form matches. On the two example URLs, parsed
  as the platform parses them, it yields \<open>abc123\<close> and \<open>xyz\<close>.
\<close>

theorem extractSurl_derivation:
  "(\<forall>e. newURL s = Inl e \<longrightarrow> extractSurl newURL s = None)
   \<and> (\<forall>u. newURL s = Inr u \<longrightarrow> (\<forall>r. extractSurl newURL s = Some r \<longleftrightarrow> derived_reference u r))
   \<and> (\<forall>u. newURL ''https://host/s/1abc123'' = Inr u \<and> pathname u = ''/s/1abc123''
            \<and> searchParams u = []
          \<longrightarrow> extractSurl newURL ''https://host/s/1abc123'' = Some ''abc123'')
   \<and> (\<forall>u. newURL ''https://host/share?surl=xyz'' = Inr u \<and> pathname u = ''/share''
            \<and> searchParams u = [(''surl'', ''xyz'')]
          \<longrightarrow> extractSurl newURL ''https://host/share?surl=xyz'' = Some ''xyz'')"
proof (intro conjI allI impI)
  fix e assume "newURL s = Inl e"
  then show "extractSurl newURL s = None"
    by (simp add: extractSurl_def extractSurl_body_def)
next
  fix u r assume "newURL s = Inr u"
  then show "extractSurl newURL s = Some r \<longleftrightarrow> derived_reference u r"
    by (rule extractSurl_parsed)
next
  fix u assume "newURL ''https://host/s/1abc123'' = Inr u \<and> pathname u = ''/s/1abc123''
            \<and> searchParams u = []"
  then show "extractSurl newURL ''https://host/s/1abc123'' = Some ''abc123''"
    using extractSurl_Inr [of newURL "''https://host/s/1abc123''" u]
    by (simp add: searchParams_get_def truthy_def token_char_def strip_discriminator_def)
next
  fix u assume "newURL ''https://host/share?surl=xyz'' = Inr u \<and> pathname u = ''/share''
            \<and> searchParams u = [(''surl'', ''xyz'')]"
  then show "extractSurl newURL ''https://host/share?surl=xyz'' = Some ''xyz''"
    using extractSurl_Inr [of newURL "''https://host/share?surl=xyz''" u]
    by (simp add: searchParams_get_def truthy_def strip_discriminator_def)
qed

theorem extractSurl_derivation_witness:
  "extractSurl parse_plain_url ''https://host/s/1abc123'' = Some ''abc123''
   \<and> extractSurl parse_plain_url ''https://host/share?surl=xyz'' = Some ''xyz''
   \<and> extractSurl parse_plain_url ''not a url'' = None
   \<and> derived_reference
        \<lparr>protocol = ''https:'', host = ''host'', pathname = ''/s/1abc123'', searchParams = []\<rparr>
        ''abc123''"
  using extractSurl_derivation [of parse_plain_url "''https://host/s/1abc123''"]
    extractSurl_derivation [of parse_plain_url "''not a url''"]
  by (auto simp: parse_samples)

text \<open>
  C7 as stated fails when the \<open>surl\<close> parameter is present with an empty value and the
  path has a share segment: the rule as stated uses the present parameter, the code uses the
  path token.
\<close>

theorem empty_surl_parameter_counterexample:
  "parse_plain_url ''https://host/s/1abc?surl='' =
     Inr \<lparr>protocol = ''https:'', host = ''host'', pathname = ''/s/1abc'',
          searchParams = [(''surl'', [])]\<rparr>
   \<and> extractSurl parse_plain_url ''https://host/s/1abc?surl='' = Some ''abc''
   \<and> \<not> stated_reference
        \<lparr>protocol = ''https:'', host = ''host'', pathname = ''/s/1abc'',
         searchParams = [(''surl'', [])]\<rparr> ''abc''"
  by (simp add: parse_samples extractSurl_Inr [of parse_plain_url _ _, OF parse_samples(3)] searchParams_get_def truthy_def
      token_char_def strip_discriminator_def stated_reference_def)

text \<open>
  C10 (as amended). The resolver reads only the path and the query of the parsed URL. When
  the first \<open>surl\<close> parameter of the query (the value \<open>searchParams.get\<close> returns) is not
  empty, the result is that value with one leading \<open>1\<close> stripped; when it is absent or
  empty and the path has a \<open>/s/<token>\<close> place, the result is the token of the first such
  place with one leading \<open>1\<close> stripped. In both cases a value is returned, whatever the
  scheme and the host are (it is the empty string when the value or token is exactly \<open>1\<close>);
  and two URLs with the same path and query get the same answer whatever their schemes and
  hosts are.
\<close>

theorem extractSurl_ignores_host:
  assumes "newURL s = Inr u"
  shows "(\<forall>v. searchParams_get u ''surl'' = Some v \<and> v \<noteq> []
            \<longrightarrow> extractSurl newURL s = Some (strip_discriminator v))
       \<and> (\<forall>t. \<not> truthy (searchParams_get u ''surl'') \<and> share_path_token (pathname u) t
            \<longrightarrow> extractSurl newURL s = Some (strip_discriminator t))
       \<and> (truthy (searchParams_get u ''surl'') \<or> (\<exists>t. share_path_token (pathname u) t)
            \<longrightarrow> (\<exists>r. extractSurl newURL s = Some r))
       \<and> (\<forall>s' u'. newURL s' = Inr u' \<and> pathname u' = pathname u \<and> searchParams u' = searchParams u
            \<longrightarrow> extractSurl newURL s' = extractSurl newURL s)
       \<and> (\<forall>v. strip_discriminator v = [] \<longleftrightarrow> v = [] \<or> v = ''1'')"
proof (intro conjI allI impI)
  fix v show "strip_discriminator v = [] \<longleftrightarrow> v = [] \<or> v = ''1''"
    by (cases v) (auto simp: strip_discriminator_def)
next
  fix v assume "searchParams_get u ''surl'' = Some v \<and> v \<noteq> []"
  then show "extractSurl newURL s = Some (strip_discriminator v)"
    unfolding extractSurl_Inr [of newURL s u, OF assms] by (simp add: truthy_def)
next
  fix t assume "\<not> truthy (searchParams_get u ''surl'') \<and> share_path_token (pathname u) t"
  then show "extractSurl newURL s = Some (strip_discriminator t)"
    unfolding extractSurl_Inr [of newURL s u, OF assms]
    by (simp add: match_share_path_iff [symmetric])
next
  assume "truthy (searchParams_get u ''surl'') \<or> (\<exists>t. share_path_token (pathname u) t)"
  then show "\<exists>r. extractSurl newURL s = Some r"
    unfolding extractSurl_Inr [of newURL s u, OF assms]
    by (auto simp: truthy_def match_share_path_iff [symmetric] split: option.splits)
next
  fix s' u' assume "newURL s' = Inr u' \<and> pathname u' = pathname u \<and> searchParams u' = searchParams u"
  then show "extractSurl newURL s' = extractSurl newURL s"
    using extractSurl_Inr [of newURL s' u'] extractSurl_Inr [of newURL s u] assms
    by (simp add: searchParams_get_def)
qed

theorem extractSurl_ignores_host_witness:
  "extractSurl parse_plain_url ''https://example.org/s/1abc'' = Some ''abc''
   \<and> extractSurl parse_plain_url ''https://www.1024tera.com/s/1abc''
       = extractSurl parse_plain_url ''https://example.org/s/1abc''"
proof -
  let ?u = "\<lparr>protocol = ''https:'', host = ''example.org'', pathname = ''/s/1abc'',
             searchParams = []\<rparr>"
  let ?u' = "\<lparr>protocol = ''https:'', host = ''www.1024tera.com'', pathname = ''/s/1abc'',
              searchParams = []\<rparr>"
  note facts = extractSurl_ignores_host [of parse_plain_url "''https://example.org/s/1abc''" ?u,
      OF parse_samples(4)]
  have token: "\<not> truthy (searchParams_get ?u ''surl'') \<and> share_path_token (pathname ?u) ''1abc''"
    using match_share_path_iff [of "''/s/1abc''" "''1abc''"]
    by (simp add: token_char_def searchParams_get_def truthy_def)
  from facts have by_path:
    "\<forall>t. \<not> truthy (searchParams_get ?u ''surl'') \<and> share_path_token (pathname ?u) t
       \<longrightarrow> extractSurl parse_plain_url ''https://example.org/s/1abc''
           = Some (strip_discriminator t)"
    by (rule conjunct2 [THEN conjunct1])
  from facts have same:
    "\<forall>s' u'. parse_plain_url s' = Inr u' \<and> pathname u' = pathname ?u
        \<and> searchParams u' = searchParams ?u
       \<longrightarrow> extractSurl parse_plain_url s'
           = extractSurl parse_plain_url ''https://example.org/s/1abc''"
    by (rule conjunct2 [THEN conjunct2, THEN conjunct2, THEN conjunct1])
  have "extractSurl parse_plain_url ''https://example.org/s/1abc''
      = Some (strip_discriminator ''1abc'')"
    using by_path token by blast
  then have first: "extractSurl parse_plain_url ''https://example.org/s/1abc'' = Some ''abc''"
    by (simp add: strip_discriminator_def)
  have "parse_plain_url ''https://www.1024tera.com/s/1abc'' = Inr ?u' \<and> pathname ?u' = pathname ?u
        \<and> searchParams ?u' = searchParams ?u"
    using parse_samples(5) by simp
  with same have second: "extractSurl parse_plain_url ''https://www.1024tera.com/s/1abc''
       = extractSurl parse_plain_url ''https://example.org/s/1abc''"
    by blast
  from first second show ?thesis by (rule conjI)
qed

text \<open>
  C10 as stated fails when the \<open>surl\<close> parameter is repeated and its first occurrence is
  empty: the query string of \<open>https://host/share?surl=&surl=1q\<close> carries the non-empty
  parameter \<open>surl=1q\<close>, yet no reference is returned.
\<close>

theorem repeated_surl_parameter_counterexample:
  "parse_plain_url ''https://host/share?surl=&surl=1q'' =
     Inr \<lparr>protocol = ''https:'', host = ''host'', pathname = ''/share'',
          searchParams = [(''surl'', []), (''surl'', ''1q'')]\<rparr>
   \<and> (''surl'', ''1q'') \<in> set [(''surl'', []), (''surl'', ''1q'')]
   \<and> ''1q'' \<noteq> []
   \<and> extractSurl parse_plain_url ''https://host/share?surl=&surl=1q'' = None"
  by (simp add: parse_samples extractSurl_Inr [of parse_plain_url _ _, OF parse_samples(7)]
      searchParams_get_def truthy_def)

section \<open>Theorems: Token Store\<close>

lemma active_tokens_invalidate: "active_tokens (invalidateAuthTokens db) = []"
  by (induction db) (simp_all add: active_tokens_def invalidateAuthTokens_def)

lemma ids_invalidate: "map t_id (invalidateAuthTokens db) = map t_id db"
  by (induction db) (simp_all add: invalidateAuthTokens_def)

lemma id_set_invalidate: "t_id ` set (invalidateAuthTokens db) = t_id ` set db"
  using arg_cong [OF ids_invalidate [of db], of set] by simp

lemma invalidate_append:
  "invalidateAuthTokens (db @ db') = invalidateAuthTokens db @ invalidateAuthTokens db'"
  by (simp add: invalidateAuthTokens_def)

lemma find_append_absent:
  "i \<notin> set (map t_id db) \<Longrightarrow> find (\<lambda>r. t_id r = i) (db @ db') = find (\<lambda>r. t_id r = i) db'"
  by (induction db) auto

text \<open>An uninterrupted call is its two steps, one after the other.\<close>

lemma saveAuthToken_steps:
  "snd (saveAuthToken authData uuid now db) = run_store_steps (save_steps authData uuid now) db"
  by (simp add: saveAuthToken_def run_store_steps_def save_steps_def Let_def split: sum.splits)

lemma insert_fresh:
  "uuid \<notin> set (map t_id db) \<Longrightarrow>
   apply_store_step (InsertToken authData uuid now) db = db @ [new_token_row authData uuid now]"
  by (simp add: db_insert_def new_token_row_def)

text \<open>
  What the store does keep: two calls that do not overlap, with the fresh ids that
  \<open>randomUUID\<close> gives, leave the token of the second call as the only active one and the
  token of the first call expired.
\<close>

lemma uninterrupted_saves:
  assumes "uuidA \<notin> set (map t_id db)" "uuidB \<notin> set (map t_id db)" "uuidA \<noteq> uuidB"
  shows "map t_id (active_tokens
           (run_store_steps (save_steps tokenA uuidA nowA @ save_steps tokenB uuidB nowB) db))
           = [uuidB]"
    and "status_of
           (run_store_steps (save_steps tokenA uuidA nowA @ save_steps tokenB uuidB nowB) db) uuidA
           = Some expired"
proof -
  let ?old = "invalidateAuthTokens (invalidateAuthTokens db)"
  let ?rowA = "new_token_row tokenA uuidA nowA"
  let ?rowB = "new_token_row tokenB uuidB nowB"
  have s1: "apply_store_step (InsertToken tokenA uuidA nowA) (invalidateAuthTokens db)
      = invalidateAuthTokens db @ [?rowA]"
    using assms(1) by (intro insert_fresh) (simp add: id_set_invalidate)
  have s2: "invalidateAuthTokens (invalidateAuthTokens db @ [?rowA])
      = ?old @ [?rowA\<lparr>t_status := expired\<rparr>]"
    by (simp add: invalidate_append) (simp add: invalidateAuthTokens_def new_token_row_def)
  have s3: "apply_store_step (InsertToken tokenB uuidB nowB) (?old @ [?rowA\<lparr>t_status := expired\<rparr>])
      = (?old @ [?rowA\<lparr>t_status := expired\<rparr>]) @ [?rowB]"
    using assms(2,3) by (intro insert_fresh) (simp add: id_set_invalidate new_token_row_def)
  have run: "run_store_steps (save_steps tokenA uuidA nowA @ save_steps tokenB uuidB nowB) db
      = ?old @ [?rowA\<lparr>t_status := expired\<rparr>, ?rowB]"
    by (simp only: run_store_steps_def save_steps_def append.simps fold_simps
        apply_store_step.simps(1) s1 s2 s3 append_assoc)
  have none: "filter (\<lambda>r. t_status r = active) ?old = []"
    using active_tokens_invalidate [of "invalidateAuthTokens db"] by (simp add: active_tokens_def)
  have absent: "uuidA \<notin> set (map t_id ?old)"
    using assms(1) by (simp add: id_set_invalidate)
  show "map t_id (active_tokens
           (run_store_steps (save_steps tokenA uuidA nowA @ save_steps tokenB uuidB nowB) db))
           = [uuidB]"
    unfolding run by (simp add: active_tokens_def none new_token_row_def)
  show "status_of
           (run_store_steps (save_steps tokenA uuidA nowA @ save_steps tokenB uuidB nowB) db) uuidA
           = Some expired"
    unfolding run status_of_def
    by (simp add: find_append_absent [OF absent] new_token_row_def)
qed

text \<open>
  C2: what the code does when two calls of \<open>saveAuthToken\<close> overlap. The run
  \<open>overlapping_saves\<close> executes the two statements of either call in their order, both
  demotions before either insert; started on the empty table it leaves two tokens with
  status \<open>active\<close>, and \<open>getActiveAuthToken\<close> then returns the older one.
\<close>

theorem overlapping_saves_two_active:
  "interleaving overlapping_saves
      (save_steps (sample_auth ''tokenA'') ''id-a'' 1) (save_steps (sample_auth ''tokenB'') ''id-b'' 2)
   \<and> map t_id (active_tokens (run_store_steps overlapping_saves [])) = [''id-a'', ''id-b'']
   \<and> map_option t_id (getActiveAuthToken (run_store_steps overlapping_saves [])) = Some ''id-a''"
  by (simp add: overlapping_saves_def save_steps_def run_store_steps_def invalidateAuthTokens_def
      db_insert_def new_token_row_def active_tokens_def getActiveAuthToken_def)

section \<open>Theorems: Session Capture Controller\<close>

lemma nat_text_now: "nat_text 1700000000000 = ''1700000000000''"
  by (simp add: nat_text_def decimal_digits.simps digit_char_def)

lemma includes_jsToken: "includes_str capture_request_url ''jsToken=''"
  by (simp add: capture_request_url_def)

lemma parse_capture_url:
  "parse_plain_url capture_request_url
     = Inr \<lparr>protocol = ''https:'', host = ''www.1024tera.com'', pathname = ''/api/user/getinfo'',
             searchParams = [(''jsToken'', ''0123456789ABCDEF0123456789ABCDEF'')]\<rparr>"
  by (simp add: capture_request_url_def parse_plain_url_def parse_query_def parse_pair_def Let_def
      toLowerCase_def to_lower_char_def alpha_char_def scheme_char_def)

lemma run_until_capture:
  "run parse_plain_url (take 4 early_capture_trace) initial_controller =
     \<lparr>activeAuthSession =
        Some \<lparr>s_sessionId = ''auth_1700000000000'', s_status = success,
              s_message = ''Authentication captured successfully'',
              s_authData = Some \<lparr>a_provider = ''terabox'',
                                  a_jsToken = ''0123456789ABCDEF0123456789ABCDEF'',
                                  a_cookies = [], a_capturedAt = 1700000000500\<rparr>\<rparr>,
      activeBrowserContext = Some 1,
      frames = [\<lparr>fr_sessionId = ''auth_1700000000000'', fr_captured = True, fr_phase = Navigating,
                 fr_context = Some 1, fr_pending = []\<rparr>],
      launches = 1\<rparr>"
  by (simp add: early_capture_trace_def run_def step_def event_frame_def frame_step_def Let_def
      startAuthSession_enter_def session_is_waiting_def initial_controller_def set_frame_def
      set_session_def nat_text_now includes_jsToken parse_capture_url searchParams_get_def)

text \<open>
  C3: what the code does on the run \<open>early_capture_trace\<close>. After the fourth event the
  session of the call is \<open>success\<close>; the fifth event, the return of \<open>page.goto\<close> in the
  same call of \<open>startAuthSession\<close>, sets the same session to \<open>waiting_for_login\<close>.
\<close>

theorem success_overwritten_by_waiting:
  "current_status (run parse_plain_url (take 4 early_capture_trace) initial_controller) = Some success
   \<and> current_status (run parse_plain_url early_capture_trace initial_controller)
       = Some waiting_for_login
   \<and> current_sessionId (run parse_plain_url (take 4 early_capture_trace) initial_controller)
       = current_sessionId (run parse_plain_url early_capture_trace initial_controller)"
proof -
  have split: "early_capture_trace = take 4 early_capture_trace @ [GotoResolved 0]"
    by (simp add: early_capture_trace_def)
  have last: "run parse_plain_url early_capture_trace initial_controller =
      step parse_plain_url (GotoResolved 0)
        (run parse_plain_url (take 4 early_capture_trace) initial_controller)"
    by (subst split) (simp add: run_def)
  show ?thesis
    unfolding last run_until_capture
    by (simp add: current_status_def current_sessionId_def getAuthSessionStatus_def step_def
        event_frame_def frame_step_def set_frame_def set_session_def)
qed

text \<open>
  C8. While the current session is \<open>waiting_for_login\<close>, \<open>startAuthSession\<close> returns that
  session at once and changes nothing: the session, its \<open>sessionId\<close> and the number of
  browser launches stay as they are, and a second call returns the same session again.
\<close>

theorem start_idempotent_while_waiting:
  assumes "activeAuthSession c = Some s" and "s_status s = waiting_for_login"
  shows "startAuthSession_enter now c = (Some s, c)
       \<and> step newURL (StartCalled now) c = c
       \<and> fst (startAuthSession_enter later (snd (startAuthSession_enter now c))) = Some s
       \<and> launches (run newURL [StartCalled now, StartCalled later] c) = launches c"
  using assms by (simp add: startAuthSession_enter_def session_is_waiting_def step_def run_def)

lemma waiting_controller_value:
  "waiting_controller =
     \<lparr>activeAuthSession =
        Some \<lparr>s_sessionId = ''auth_1700000000000'', s_status = waiting_for_login,
              s_message = ''Browser opened with your Chrome profile. Navigate to any share link to capture auth.'',
              s_authData = None\<rparr>,
      activeBrowserContext = Some 1,
      frames = [\<lparr>fr_sessionId = ''auth_1700000000000'', fr_captured = False, fr_phase = Finished,
                 fr_context = Some 1, fr_pending = []\<rparr>],
      launches = 1\<rparr>"
  by (simp add: waiting_controller_def run_def step_def event_frame_def frame_step_def Let_def
      startAuthSession_enter_def session_is_waiting_def initial_controller_def set_frame_def
      set_session_def nat_text_now)

theorem start_idempotent_while_waiting_witness:
  "current_status waiting_controller = Some waiting_for_login
   \<and> map_option s_sessionId (fst (startAuthSession_enter 1700000009999 waiting_controller))
       = Some ''auth_1700000000000''
   \<and> launches (run parse_plain_url [StartCalled 1700000009999, StartCalled 1700000019999]
        waiting_controller) = 1"
  using start_idempotent_while_waiting [of waiting_controller
      "\<lparr>s_sessionId = ''auth_1700000000000'', s_status = waiting_for_login,
        s_message = ''Browser opened with your Chrome profile. Navigate to any share link to capture auth.'',
        s_authData = None\<rparr>" 1700000009999 parse_plain_url 1700000019999]
  by (simp add: waiting_controller_value current_status_def getAuthSessionStatus_def)


section \<open>Theorems: Metadata Fetch Service\<close>

text \<open>The size and type helpers on the examples of the specification.\<close>

lemma humanSize_examples:
  "humanSize 0 = ''0 B''"
  "humanSize 1536 = ''1.50 KB''"
  "humanSize 1073741824 = ''1.00 GB''"
  by (simp_all add: humanSize_def humanSize_unit.simps toFixed2_def unit_name_def nat_text_def
      decimal_digits.simps digit_char_def Let_def)

lemma guessType_examples:
  "guessType ''Episode 1.MP4'' = ''video''"
  "guessType ''notes.docx'' = ''document''"
  "guessType ''README'' = ''other''"
  by (simp_all add: guessType_def has_extension_def endsWith_def toLowerCase_def to_lower_char_def)

lemma fetchList_outcome:
  "fetchList remote log params =
     (case remote (length log) (list_request_of params) of
        NetworkFailure e \<Rightarrow> Inl e
      | NonJsonBody \<Rightarrow> Inl (Error ''Expected JSON, got HTML (verify/auth issue)'')
      | JsonBody r \<Rightarrow> Inr r,
      log @ [list_request_of params])"
  by (simp add: fetchList_def split: list_outcome.splits)

text \<open>The function after a root listing that parsed.\<close>

lemma fetch_after_root:
  assumes "extractSurl newURL shareUrl = Some surl" and "surl \<noteq> []"
    and "remote 0 (list_request_of (root_params surl authData)) = JsonBody rootData"
  shows "fetchAuthenticatedMetadata newURL remote shareUrl authData =
     (if r_errno rootData \<noteq> ErrnoZero \<or> r_list rootData = None then
        (auth_failure (''Failed to fetch list: errno '' @ render_errno (r_errno rootData)),
         [list_request_of (root_params surl authData)])
      else
       (case r_list rootData of
          Some [only] \<Rightarrow>
            if e_isdir only = ''1'' then
              (case fetchList remote [list_request_of (root_params surl authData)]
                      ((root_params surl authData)\<lparr>p_dir := Some (e_path only)\<rparr>) of
                 (Inl e, log2) \<Rightarrow> (auth_failure (error_message e), log2)
               | (Inr innerData, log2) \<Rightarrow>
                  (case r_list innerData of
                     Some inner \<Rightarrow> (auth_success inner, log2)
                   | None \<Rightarrow> (auth_success [only], log2)))
            else (auth_success [only], [list_request_of (root_params surl authData)])
        | Some items \<Rightarrow> (auth_success items, [list_request_of (root_params surl authData)])
        | None \<Rightarrow> (auth_success [], [list_request_of (root_params surl authData)])))"
  using assms
  by (simp add: fetchAuthenticatedMetadata_def fetchList_outcome root_params_def Let_def
      split: option.splits list.splits)

lemma fetch_root_not_json:
  assumes "extractSurl newURL shareUrl = Some surl" and "surl \<noteq> []"
    and "remote 0 (list_request_of (root_params surl authData)) = NonJsonBody"
  shows "fetchAuthenticatedMetadata newURL remote shareUrl authData =
     (auth_failure ''Expected JSON, got HTML (verify/auth issue)'',
      [list_request_of (root_params surl authData)])"
  using assms
  by (simp add: fetchAuthenticatedMetadata_def fetchList_outcome root_params_def Let_def
      error_message_def)

lemma fetch_single_folder:
  assumes "extractSurl newURL shareUrl = Some surl" and "surl \<noteq> []"
    and "remote 0 (list_request_of (root_params surl authData)) = listing [d]"
    and "e_isdir d = ''1''"
  shows "fetchAuthenticatedMetadata newURL remote shareUrl authData =
     (case remote 1 (list_request_of ((root_params surl authData)\<lparr>p_dir := Some (e_path d)\<rparr>)) of
        NetworkFailure e \<Rightarrow> auth_failure (error_message e)
      | NonJsonBody \<Rightarrow> auth_failure ''Expected JSON, got HTML (verify/auth issue)''
      | JsonBody innerData \<Rightarrow>
          (case r_list innerData of Some inner \<Rightarrow> auth_success inner | None \<Rightarrow> auth_success [d]),
      [list_request_of (root_params surl authData),
       list_request_of ((root_params surl authData)\<lparr>p_dir := Some (e_path d)\<rparr>)])"
proof -
  have root: "remote 0 (list_request_of (root_params surl authData))
      = JsonBody \<lparr>r_errno = ErrnoZero, r_list = Some [d]\<rparr>"
    using assms(3) by (simp add: listing_def)
  show ?thesis
    using fetch_after_root [of newURL shareUrl surl remote authData
        "\<lparr>r_errno = ErrnoZero, r_list = Some [d]\<rparr>"] assms(1,2,4) root
    by (simp add: fetchList_outcome error_message_def split: list_outcome.splits option.splits)
qed



lemma sample_share:
  "extractSurl parse_plain_url ''https://www.1024tera.com/s/1abc'' = Some ''abc''"
  using extractSurl_Inr [of parse_plain_url "''https://www.1024tera.com/s/1abc''" _,
      OF parse_samples(5)]
  by (simp add: searchParams_get_def truthy_def token_char_def strip_discriminator_def)

text \<open>
  C4. When the body of a listing response, of the root call or of the call for the single
  folder, is not JSON, the result is the failure with the message
  \<open>Expected JSON, got HTML (verify/auth issue)\<close>; when the root body parses and its
  \<open>errno\<close> is not 0, the result is the failure whose message starts
  \<open>Failed to fetch list: errno\<close>. Both are returned values with \<open>success = false\<close>, and no
  failure of the second kind equals the first.
\<close>

theorem unexpected_response_distinct:
  assumes "extractSurl newURL shareUrl = Some surl" and "surl \<noteq> []"
  shows "(remote 0 (list_request_of (root_params surl authData)) = NonJsonBody
            \<longrightarrow> fst (fetchAuthenticatedMetadata newURL remote shareUrl authData)
                  = auth_failure ''Expected JSON, got HTML (verify/auth issue)'')
       \<and> (\<forall>d. remote 0 (list_request_of (root_params surl authData)) = listing [d]
              \<and> e_isdir d = ''1''
              \<and> remote 1 (list_request_of ((root_params surl authData)\<lparr>p_dir := Some (e_path d)\<rparr>))
                  = NonJsonBody
            \<longrightarrow> fst (fetchAuthenticatedMetadata newURL remote shareUrl authData)
                  = auth_failure ''Expected JSON, got HTML (verify/auth issue)'')
       \<and> (\<forall>r. remote 0 (list_request_of (root_params surl authData)) = JsonBody r
              \<and> r_errno r \<noteq> ErrnoZero
            \<longrightarrow> fst (fetchAuthenticatedMetadata newURL remote shareUrl authData)
                  = auth_failure (''Failed to fetch list: errno '' @ render_errno (r_errno r)))
       \<and> (\<forall>x. auth_failure ''Expected JSON, got HTML (verify/auth issue)''
              \<noteq> auth_failure (''Failed to fetch list: errno '' @ x))
       \<and> \<not> m_success (auth_failure ''Expected JSON, got HTML (verify/auth issue)'')"
proof (intro conjI allI impI)
  assume "remote 0 (list_request_of (root_params surl authData)) = NonJsonBody"
  then show "fst (fetchAuthenticatedMetadata newURL remote shareUrl authData)
      = auth_failure ''Expected JSON, got HTML (verify/auth issue)''"
    using fetch_root_not_json [of newURL shareUrl surl remote authData] assms by simp
next
  fix d
  assume "remote 0 (list_request_of (root_params surl authData)) = listing [d]
              \<and> e_isdir d = ''1''
              \<and> remote 1 (list_request_of ((root_params surl authData)\<lparr>p_dir := Some (e_path d)\<rparr>))
                  = NonJsonBody"
  then show "fst (fetchAuthenticatedMetadata newURL remote shareUrl authData)
      = auth_failure ''Expected JSON, got HTML (verify/auth issue)''"
    using fetch_single_folder [of newURL shareUrl surl remote authData d] assms by simp
next
  fix r
  assume "remote 0 (list_request_of (root_params surl authData)) = JsonBody r
              \<and> r_errno r \<noteq> ErrnoZero"
  then show "fst (fetchAuthenticatedMetadata newURL remote shareUrl authData)
      = auth_failure (''Failed to fetch list: errno '' @ render_errno (r_errno r))"
    using fetch_after_root [of newURL shareUrl surl remote authData r] assms by simp
next
  fix x
  show "auth_failure ''Expected JSON, got HTML (verify/auth issue)''
      \<noteq> auth_failure (''Failed to fetch list: errno '' @ x)"
    by (simp add: auth_failure_def)
next
  show "\<not> m_success (auth_failure ''Expected JSON, got HTML (verify/auth issue)'')"
    by (simp add: auth_failure_def)
qed

theorem unexpected_response_distinct_witness:
  "m_error (fst (fetchAuthenticatedMetadata parse_plain_url (scripted_remote [NonJsonBody])
       ''https://www.1024tera.com/s/1abc'' (sample_auth ''tok'')))
     = Some ''Expected JSON, got HTML (verify/auth issue)''
   \<and> m_error (fst (fetchAuthenticatedMetadata parse_plain_url (scripted_remote [remote_error ''-6''])
       ''https://www.1024tera.com/s/1abc'' (sample_auth ''tok'')))
     = Some ''Failed to fetch list: errno -6''"
  using unexpected_response_distinct [OF sample_share, of "scripted_remote [NonJsonBody]"
      "sample_auth ''tok''"]
    unexpected_response_distinct [OF sample_share, of "scripted_remote [remote_error ''-6'']"
      "sample_auth ''tok''"]
  by (simp add: scripted_remote_def remote_error_def auth_failure_def render_errno_def)




end
